theory Spec2Isabelle
  imports Main
begin

section \<open>Errors, dynamic values and the outcome of a call\<close>

text \<open>
  A Go \<^verbatim>\<open>interface{}\<close> value, as \<^verbatim>\<open>panic\<close> takes and \<^verbatim>\<open>recover\<close> returns it, is
  \<^item> the nil interface (\<open>INil\<close>),
  \<^item> a value whose type implements \<^verbatim>\<open>error\<close> (\<open>IError\<close>), or
  \<^item> any other value (\<open>IValue\<close>), carried here by its \<^verbatim>\<open>%v\<close> rendering (for a Go string,
    the string itself).

  An \<^verbatim>\<open>error\<close> is \<^verbatim>\<open>util.ErrorOf{Value: x}\<close>, an \<^verbatim>\<open>errors.New(s)\<close>, or one of the two
  errors of package context. The nil error is \<open>None\<close> of \<open>error option\<close>.
\<close>

datatype iface = INil | IValue string | IError error
and error = ErrorOf iface | ErrorString string | Canceled | DeadlineExceeded

text \<open>
  \<^verbatim>\<open>func (err ErrorOf) Error() string { return fmt.Sprintf("%v", err.Value) }\<close>
  together with the \<^verbatim>\<open>Error\<close> methods of the other errors. \<^verbatim>\<open>%v\<close> prints the nil interface
  as \<^verbatim>\<open><nil>\<close> and an error by its \<^verbatim>\<open>Error\<close> method.
\<close>

fun Sprintf_v :: "iface \<Rightarrow> string" and ErrorMsg :: "error \<Rightarrow> string" where
  "Sprintf_v INil = ''<nil>''"
| "Sprintf_v (IValue s) = s"
| "Sprintf_v (IError e) = ErrorMsg e"
| "ErrorMsg (ErrorOf x) = Sprintf_v x"
| "ErrorMsg (ErrorString s) = s"
| "ErrorMsg Canceled = ''context canceled''"
| "ErrorMsg DeadlineExceeded = ''context deadline exceeded''"

text \<open>
  \<^verbatim>\<open>func ToError(x interface{}) error\<close>: the type switch has the case \<^verbatim>\<open>error\<close> and a default.
  The nil interface matches no type and takes the default.
\<close>

definition ToError :: "iface \<Rightarrow> error" where
  "ToError x = (case x of IError e \<Rightarrow> e | _ \<Rightarrow> ErrorOf x)"

text \<open>
  How one call of a \<^verbatim>\<open>func() (T, error)\<close> ends: it returns a pair, it panics with a payload,
  or it ends its goroutine with \<^verbatim>\<open>runtime.Goexit\<close> (\<open>Goexits\<close>: nothing is returned, and
  the deferred calls of the goroutine run before it is over). A call that never ends (it
  loops or blocks for ever) has no outcome: in the goroutine models below it is the step
  that is never taken. A call that ends the whole process (\<^verbatim>\<open>os.Exit\<close>, a fatal error of
  the runtime) ends every party with it and is not modelled.
\<close>

datatype 'a outcome = Returns 'a "error option" | Panics iface | Goexits

text \<open>
  \<^verbatim>\<open>recover()\<close> in a deferred function, on Go 1.18 to 1.20 (the README asks for
  "go1.18beta1 or higher"; from Go 1.21 on the same holds for a main module that declares an
  older Go version): it stops the panic and returns the payload, and it returns nil when
  the function is not panicking. So after \<^verbatim>\<open>panic(nil)\<close> it returns nil as well, and
  also in the deferred calls that \<^verbatim>\<open>runtime.Goexit\<close> runs, since Goexit is not a panic.
\<close>

definition recover :: "'a outcome \<Rightarrow> iface" where
  "recover r = (case r of Returns v e \<Rightarrow> INil | Panics p \<Rightarrow> p | Goexits \<Rightarrow> INil)"

text \<open>
  \<^verbatim>\<open>
  func SafeFunc0E[U any](f func() (U, error)) func() (U, error) {
      return func() (res U, err error) {
          defer func() {
              err0 := recover()
              if err0 != nil {
                  err = ToError(err0)
              }
          }()
          return f()
      }
  }
  \<close>
  The named results \<open>res, err\<close> hold f's pair when f returns and stay at their zero values
  (\<open>zero\<close>, nil) otherwise; the deferred function runs in every case. After a return or a
  panic (which \<^verbatim>\<open>recover\<close> stops) the wrapper returns the named results; when f ends the
  goroutine with Goexit, the deferred function finds no panic and the goroutine goes on
  ending: the wrapper does not return either. \<open>zero\<close> is the zero value of the type \<open>U\<close>.
\<close>

definition SafeFunc0E :: "'a \<Rightarrow> (unit \<Rightarrow> 'a outcome) \<Rightarrow> unit \<Rightarrow> 'a outcome" where
  "SafeFunc0E zero f = (\<lambda>_.
     let r = f ();
         (res, err) =
           (case r of Returns v e \<Rightarrow> (v, e) | Panics p \<Rightarrow> (zero, None) | Goexits \<Rightarrow> (zero, None));
         err0 = recover r;
         err = (if err0 \<noteq> INil then Some (ToError err0) else err)
     in case r of Goexits \<Rightarrow> Goexits | _ \<Rightarrow> Returns res err)"

section \<open>Channels\<close>

text \<open>
  A Go channel with a buffer: the values sent and not yet received, the capacity given to
  \<^verbatim>\<open>make\<close>, and whether \<^verbatim>\<open>close\<close> was called. The operations are those of the language:
  \<^item> a send panics on a closed channel, goes through while the buffer has room, and blocks
    otherwise (a send on an unbuffered channel goes through only when a receiver stands
    ready, which this model leaves out: there it blocks);
  \<^item> a receive takes the oldest buffered value; on an empty channel it returns the zero
    value of the element type when the channel is closed, and blocks when it is open;
  \<^item> closing a closed channel panics.
\<close>

record 'd chan =
  buf :: "'d list"
  cap :: nat
  closed :: bool

definition make_chan :: "nat \<Rightarrow> 'd chan" where
  "make_chan n = \<lparr>buf = [], cap = n, closed = False\<rparr>"

datatype 'd sent = SendBlocked | SendPanic | Sent "'d chan"

datatype 'd received = RecvBlocked | Received 'd "'d chan"

definition chan_send :: "'d \<Rightarrow> 'd chan \<Rightarrow> 'd sent" where
  "chan_send d c =
     (if closed c then SendPanic
      else if length (buf c) < cap c then Sent (c\<lparr>buf := buf c @ [d]\<rparr>)
      else SendBlocked)"

definition chan_recv :: "'d \<Rightarrow> 'd chan \<Rightarrow> 'd received" where
  "chan_recv zero c =
     (case buf c of
        d # ds \<Rightarrow> Received d (c\<lparr>buf := ds\<rparr>)
      | [] \<Rightarrow> if closed c then Received zero c else RecvBlocked)"

definition chan_close :: "'d chan \<Rightarrow> 'd chan option" where
  "chan_close c = (if closed c then None else Some (c\<lparr>closed := True\<rparr>))"

section \<open>The cancellation token\<close>

text \<open>
  A \<^verbatim>\<open>context.Context\<close> as its observers see it: not done (\<open>None\<close>), or done for one of
  the two reasons of package context. \<^verbatim>\<open>ctx.Done()\<close> is closed exactly when the context is
  done, and \<^verbatim>\<open>ctx.Err()\<close> is then \<^verbatim>\<open>context.Canceled\<close> or
  \<^verbatim>\<open>context.DeadlineExceeded\<close>. A done context stays done, with the same error.
\<close>

datatype reason = Cancel | Deadline

type_synonym ctx = "reason option"

definition ctx_Done :: "ctx \<Rightarrow> bool" where
  "ctx_Done c = (c \<noteq> None)"

definition ctx_Err :: "ctx \<Rightarrow> error option" where
  "ctx_Err c =
     (case c of None \<Rightarrow> None | Some Cancel \<Rightarrow> Some Canceled | Some Deadline \<Rightarrow> Some DeadlineExceeded)"

section \<open>Package rdv: the rendezvous\<close>

text \<open>
  \<^verbatim>\<open>type rdvData[T any] struct { value T; err error; chanOpen bool }\<close> and
  \<^verbatim>\<open>type Rdv[T any] struct { ch chan rdvData[T] }\<close>. A handle is taken for the state of
  its channel; \<open>rdvData_zero\<close> is \<^verbatim>\<open>rdvData[T]{}\<close>.
\<close>

record 'a rdvData =
  dvalue :: 'a
  derr :: "error option"
  chanOpen :: bool

type_synonym 'a Rdv = "'a rdvData chan"

definition rdvData_zero :: "'a \<Rightarrow> 'a rdvData" where
  "rdvData_zero zero = \<lparr>dvalue = zero, derr = None, chanOpen = False\<rparr>"

text \<open>
  A call that can block: it is still waiting (\<open>Blocked\<close>: nothing has happened, and it goes
  on when a later state lets it), it panicked, or it returned a result and left the state
  it worked on changed.
\<close>

datatype ('r, 's) call = Blocked | Panic iface | Return 'r 's

definition closed_rendezvous :: iface where
  "closed_rendezvous = IValue ''attempt to get data from closed rendezvous channel''"

text \<open>
  \<^verbatim>\<open>
  func (rv Rdv[T]) Receive() (T, error) {
      data := <-rv.ch
      if !data.chanOpen {
          panic("attempt to get data from closed rendezvous channel")
      }
      return data.value, data.err
  }
  \<close>
\<close>

definition Receive :: "'a \<Rightarrow> 'a Rdv \<Rightarrow> ('a \<times> error option, 'a Rdv) call" where
  "Receive zero rv =
     (case chan_recv (rdvData_zero zero) rv of
        RecvBlocked \<Rightarrow> Blocked
      | Received data rv' \<Rightarrow>
          if \<not> chanOpen data then Panic closed_rendezvous
          else Return (dvalue data, derr data) rv')"

text \<open>
  \<^verbatim>\<open>
  func (rv Rdv[T]) ReceiveWatch(ctx context.Context) (T, error) {
      data := rdvData[T]{}
      select {
      case data = <-rv.ch:
          if !data.chanOpen {
              panic("attempt to get data from closed rendezvous channel")
          }
      case <-ctx.Done():
          data.err = ctx.Err()
      }
      return data.value, data.err
  }
  \<close>
  A \<^verbatim>\<open>select\<close> blocks while no case can proceed, takes the case that can when there is one,
  and chooses among several that can by a pseudo-random draw: \<open>pick\<close> is that draw.
\<close>

datatype select_case = ChanCase | DoneCase

definition ReceiveWatch ::
  "select_case \<Rightarrow> 'a \<Rightarrow> 'a Rdv \<Rightarrow> ctx \<Rightarrow> ('a \<times> error option, 'a Rdv) call" where
  "ReceiveWatch pick zero rv c =
     (let data0 = rdvData_zero zero;
          done_case = Return (dvalue data0, ctx_Err c) rv
      in case chan_recv data0 rv of
           RecvBlocked \<Rightarrow> if ctx_Done c then done_case else Blocked
         | Received data rv' \<Rightarrow>
             if ctx_Done c \<and> pick = DoneCase then done_case
             else if \<not> chanOpen data then Panic closed_rendezvous
             else Return (dvalue data, derr data) rv')"

text \<open>
  \<^verbatim>\<open>
  func Go[T any](f func() (T, error)) Rdv[T] {
      rv := Rdv[T]{make(chan rdvData[T], 1)}
      go func() {
          defer close(rv.ch)
          fs := util.SafeFunc0E(f)
          res, err := fs()
          data := rdvData[T]{res, err, true}
          rv.ch <- data
      }()
      return rv
  }
  \<close>
  The goroutine and its channel are one record. The goroutine stands before the call of
  \<open>fs\<close> (\<open>GCall\<close>), before the send of its record (\<open>GSend\<close>), before the deferred close
  (\<open>GClose\<close>, which remembers the error for \<open>GoEg\<close>), before handing its error to its group
  (\<open>GReturn\<close>, \<open>GoEg\<close> only), or it is over (\<open>GExit\<close>); \<open>GCrash\<close> is a panic nobody
  recovers. \<open>Go_step\<close> is one step of the goroutine, \<open>None\<close> when it cannot move: blocked in
  its send, or over. The closure \<open>f\<close> is given to the step, since what it returns may depend
  on the state of the token at that moment. When the call of \<open>fs\<close> ends the goroutine with
  Goexit, the rest of the body is skipped and nothing is sent: the goroutine stands before
  its deferred close at once (\<open>GClose\<close> with no error), and a member of a group is then
  counted out by the deferred call of the group, with no error.
\<close>

datatype 'a gpc =
  GCall | GSend "'a rdvData" | GClose "error option" | GReturn "error option" | GExit | GCrash

record 'a goroutine =
  gpc :: "'a gpc"
  gch :: "'a Rdv"

definition Go :: "'a goroutine" where
  "Go = \<lparr>gpc = GCall, gch = make_chan 1\<rparr>"

definition call_fs :: "'a \<Rightarrow> (unit \<Rightarrow> 'a outcome) \<Rightarrow> 'a goroutine \<Rightarrow> 'a goroutine" where
  "call_fs zero f g =
     (case SafeFunc0E zero f () of
        Returns res err \<Rightarrow> g\<lparr>gpc := GSend \<lparr>dvalue = res, derr = err, chanOpen = True\<rparr>\<rparr>
      | Panics p \<Rightarrow> g\<lparr>gpc := GCrash\<rparr>
      | Goexits \<Rightarrow> g\<lparr>gpc := GClose None\<rparr>)"

definition send_data :: "'a rdvData \<Rightarrow> 'a goroutine \<Rightarrow> 'a goroutine option" where
  "send_data data g =
     (case chan_send data (gch g) of
        Sent c \<Rightarrow> Some (g\<lparr>gpc := GClose (derr data), gch := c\<rparr>)
      | SendBlocked \<Rightarrow> None
      | SendPanic \<Rightarrow> Some (g\<lparr>gpc := GCrash\<rparr>))"

definition Go_step :: "'a \<Rightarrow> (unit \<Rightarrow> 'a outcome) \<Rightarrow> 'a goroutine \<Rightarrow> 'a goroutine option" where
  "Go_step zero f g =
     (case gpc g of
        GCall \<Rightarrow> Some (call_fs zero f g)
      | GSend data \<Rightarrow> send_data data g
      | GClose err \<Rightarrow>
          (case chan_close (gch g) of
             Some c \<Rightarrow> Some (g\<lparr>gpc := GExit, gch := c\<rparr>)
           | None \<Rightarrow> Some (g\<lparr>gpc := GCrash\<rparr>))
      | GReturn err \<Rightarrow> None
      | GExit \<Rightarrow> None
      | GCrash \<Rightarrow> None)"

text \<open>
  \<^verbatim>\<open>func CtxApply(ctx, f) func() (T, error) { return func() (T, error) { return f(ctx) } }\<close>.
  A \<^verbatim>\<open>func(context.Context) (T, error)\<close> is a function from the state in which it finds
  the token to its outcome.
\<close>

definition CtxApply :: "ctx \<Rightarrow> (ctx \<Rightarrow> 'a outcome) \<Rightarrow> unit \<Rightarrow> 'a outcome" where
  "CtxApply c f = (\<lambda>_. f c)"

section \<open>Executions\<close>

text \<open>
  The goroutines of a call run interleaved. An execution is a list of events, each one
  step of one party: the token fires, the goroutine of task \<open>i\<close> moves, the member
  goroutine \<open>i\<close> of a group moves, or the caller moves (with the draw of the \<^verbatim>\<open>select\<close>
  it may run). A step function gives the next state, and \<open>None\<close> when the party cannot move
  in this state; \<open>exec\<close> runs a list of events.
\<close>

datatype event = Fire reason | Task nat | Member nat select_case | Waiter select_case

fun exec :: "('e \<Rightarrow> 's \<Rightarrow> 's option) \<Rightarrow> 'e list \<Rightarrow> 's \<Rightarrow> 's option" where
  "exec step [] s = Some s"
| "exec step (e # es) s = (case step e s of None \<Rightarrow> None | Some s' \<Rightarrow> exec step es s')"

text \<open>Where the caller stands: in the receive of handle \<open>i\<close>, in the group's Wait, or back.\<close>

datatype 'r wpc = WWait | WRecv nat | WReturned 'r | WPanicked iface

section \<open>Package rdvext: the collect-all combinators\<close>

record 'a ResultWithError =
  Value :: 'a
  Error :: "error option"

record ('a, 'b) Tuple2 =
  X1 :: 'a
  X2 :: 'b

text \<open>
  The loop both combinators end with:
  \<^verbatim>\<open>
  var err error = nil
  for _, e := range errs { if e != nil { err = e; break } }
  \<close>
\<close>

fun first_error :: "error option list \<Rightarrow> error option" where
  "first_error [] = None"
| "first_error (e # es) = (if e \<noteq> None then e else first_error es)"

text \<open>
  \<^verbatim>\<open>
  func RunSlice[T any](ctx context.Context, funcs ...func(context.Context) (T, error),
  ) ([]ResultWithError[T], error) {
      rvs := make([]rdv.Rdv[T], len(funcs))
      for i, f := range funcs {
          rvs[i] = rdv.Go(rdv.CtxApply(ctx, f))
      }
      results := make([]ResultWithError[T], len(funcs))
      for i := 0; i < len(rvs); i++ {
          results[i].Value, results[i].Error = rvs[i].ReceiveWatch(ctx)
      }
      var err error = nil
      for _, res := range results {
          if res.Error != nil { err = res.Error; break }
      }
      return results, err
  }
  \<close>
  The state of one call: the token, the goroutines launched with their handles, the
  results slice, and where the caller stands. \<open>RunSlice_init\<close> is the state once the
  launching loop is through and \<open>results\<close> is made.
\<close>

record 'a RunSlice_state =
  rs_ctx :: ctx
  rs_rvs :: "'a goroutine list"
  rs_results :: "'a ResultWithError list"
  rs_waiter :: "('a ResultWithError list \<times> error option) wpc"

definition RunSlice_init :: "'a \<Rightarrow> ctx \<Rightarrow> (ctx \<Rightarrow> 'a outcome) list \<Rightarrow> 'a RunSlice_state" where
  "RunSlice_init zero c funcs =
     \<lparr>rs_ctx = c,
      rs_rvs = map (\<lambda>f. Go) funcs,
      rs_results = replicate (length funcs) \<lparr>Value = zero, Error = None\<rparr>,
      rs_waiter = WRecv 0\<rparr>"

definition RunSlice_step ::
  "'a \<Rightarrow> (ctx \<Rightarrow> 'a outcome) list \<Rightarrow> event \<Rightarrow> 'a RunSlice_state \<Rightarrow> 'a RunSlice_state option" where
  "RunSlice_step zero funcs ev s =
     (case ev of
        Fire r \<Rightarrow> if rs_ctx s = None then Some (s\<lparr>rs_ctx := Some r\<rparr>) else None
      | Task i \<Rightarrow>
          if i < length (rs_rvs s) then
            (case Go_step zero (CtxApply (rs_ctx s) (funcs ! i)) (rs_rvs s ! i) of
               None \<Rightarrow> None
             | Some g \<Rightarrow> Some (s\<lparr>rs_rvs := (rs_rvs s)[i := g]\<rparr>))
          else None
      | Member i pick \<Rightarrow> None
      | Waiter pick \<Rightarrow>
          (case rs_waiter s of
             WRecv i \<Rightarrow>
               if i < length (rs_rvs s) then
                 (case ReceiveWatch pick zero (gch (rs_rvs s ! i)) (rs_ctx s) of
                    Blocked \<Rightarrow> None
                  | Panic p \<Rightarrow> Some (s\<lparr>rs_waiter := WPanicked p\<rparr>)
                  | Return r c \<Rightarrow>
                      Some (s\<lparr>rs_rvs := (rs_rvs s)[i := (rs_rvs s ! i)\<lparr>gch := c\<rparr>],
                              rs_results := (rs_results s)[i := \<lparr>Value = fst r, Error = snd r\<rparr>],
                              rs_waiter := WRecv (i + 1)\<rparr>))
               else
                 Some (s\<lparr>rs_waiter :=
                   WReturned (rs_results s, first_error (map Error (rs_results s)))\<rparr>)
           | WWait \<Rightarrow> None
           | WReturned r \<Rightarrow> None
           | WPanicked p \<Rightarrow> None))"

text \<open>
  \<^verbatim>\<open>
  func Run2[T1, T2 any](ctx, f1, f2) (util.Tuple2[ResultWithError[T1], ResultWithError[T2]], error) {
      rv1 := rdv.Go(rdv.CtxApply(ctx, f1))
      rv2 := rdv.Go(rdv.CtxApply(ctx, f2))
      results := util.Tuple2[ResultWithError[T1], ResultWithError[T2]]{}
      results.X1.Value, results.X1.Error = rv1.ReceiveWatch(ctx)
      results.X2.Value, results.X2.Error = rv2.ReceiveWatch(ctx)
      var err error = nil
      errs := []error{results.X1.Error, results.X2.Error}
      for _, e := range errs { if e != nil { err = e; break } }
      return results, err
  }
  \<close>
  The tasks are \<open>Task 0\<close> and \<open>Task 1\<close>; the caller stands before the first receive
  (\<open>WRecv 0\<close>), before the second (\<open>WRecv 1\<close>), or before the last loop (\<open>WRecv 2\<close>).
\<close>

record ('a, 'b) Run2_state =
  r2_ctx :: ctx
  r2_rv1 :: "'a goroutine"
  r2_rv2 :: "'b goroutine"
  r2_results :: "('a ResultWithError, 'b ResultWithError) Tuple2"
  r2_waiter :: "(('a ResultWithError, 'b ResultWithError) Tuple2 \<times> error option) wpc"

definition Run2_init :: "'a \<Rightarrow> 'b \<Rightarrow> ctx \<Rightarrow> ('a, 'b) Run2_state" where
  "Run2_init zero1 zero2 c =
     \<lparr>r2_ctx = c, r2_rv1 = Go, r2_rv2 = Go,
      r2_results = \<lparr>X1 = \<lparr>Value = zero1, Error = None\<rparr>, X2 = \<lparr>Value = zero2, Error = None\<rparr>\<rparr>,
      r2_waiter = WRecv 0\<rparr>"

definition Run2_step ::
  "'a \<Rightarrow> 'b \<Rightarrow> (ctx \<Rightarrow> 'a outcome) \<Rightarrow> (ctx \<Rightarrow> 'b outcome) \<Rightarrow> event
     \<Rightarrow> ('a, 'b) Run2_state \<Rightarrow> ('a, 'b) Run2_state option" where
  "Run2_step zero1 zero2 f1 f2 ev s =
     (case ev of
        Fire r \<Rightarrow> if r2_ctx s = None then Some (s\<lparr>r2_ctx := Some r\<rparr>) else None
      | Task i \<Rightarrow>
          if i = 0 then
            (case Go_step zero1 (CtxApply (r2_ctx s) f1) (r2_rv1 s) of
               None \<Rightarrow> None
             | Some g \<Rightarrow> Some (s\<lparr>r2_rv1 := g\<rparr>))
          else if i = 1 then
            (case Go_step zero2 (CtxApply (r2_ctx s) f2) (r2_rv2 s) of
               None \<Rightarrow> None
             | Some g \<Rightarrow> Some (s\<lparr>r2_rv2 := g\<rparr>))
          else None
      | Member i pick \<Rightarrow> None
      | Waiter pick \<Rightarrow>
          (case r2_waiter s of
             WRecv i \<Rightarrow>
               if i = 0 then
                 (case ReceiveWatch pick zero1 (gch (r2_rv1 s)) (r2_ctx s) of
                    Blocked \<Rightarrow> None
                  | Panic p \<Rightarrow> Some (s\<lparr>r2_waiter := WPanicked p\<rparr>)
                  | Return r c \<Rightarrow>
                      Some (s\<lparr>r2_rv1 := (r2_rv1 s)\<lparr>gch := c\<rparr>,
                              r2_results := (r2_results s)\<lparr>X1 := \<lparr>Value = fst r, Error = snd r\<rparr>\<rparr>,
                              r2_waiter := WRecv 1\<rparr>))
               else if i = 1 then
                 (case ReceiveWatch pick zero2 (gch (r2_rv2 s)) (r2_ctx s) of
                    Blocked \<Rightarrow> None
                  | Panic p \<Rightarrow> Some (s\<lparr>r2_waiter := WPanicked p\<rparr>)
                  | Return r c \<Rightarrow>
                      Some (s\<lparr>r2_rv2 := (r2_rv2 s)\<lparr>gch := c\<rparr>,
                              r2_results := (r2_results s)\<lparr>X2 := \<lparr>Value = fst r, Error = snd r\<rparr>\<rparr>,
                              r2_waiter := WRecv 2\<rparr>))
               else
                 Some (s\<lparr>r2_waiter :=
                   WReturned (r2_results s,
                     first_error [Error (X1 (r2_results s)), Error (X2 (r2_results s))])\<rparr>)
           | WWait \<Rightarrow> None
           | WReturned r \<Rightarrow> None
           | WPanicked p \<Rightarrow> None))"

section \<open>The group of golang.org/x/sync/errgroup\<close>

text \<open>
  The library is not part of the repository; its \<^verbatim>\<open>Group\<close> is modelled after the
  library's documentation. \<^verbatim>\<open>WithContext\<close> returns a group and a context derived from
  the given one, cancelled "the first time a function passed to Go returns a non-nil error
  or the first time Wait returns, whichever occurs first". \<^verbatim>\<open>Go\<close> counts the new
  member in; when the member's function returns, its error is kept if it is the first
  non-nil one, and the member is counted out. \<^verbatim>\<open>Wait\<close> "blocks until all function
  calls from the Go method have returned, then returns the first non-nil error (if any)
  from them". The record holds the count of members still running, the first error, and
  the state of the derived context.
\<close>

record group =
  wg :: nat
  gerr :: "error option"
  gctx :: ctx

definition cancel :: "ctx \<Rightarrow> ctx" where
  "cancel c = (if c = None then Some Cancel else c)"

definition WithContext :: "ctx \<Rightarrow> group" where
  "WithContext c = \<lparr>wg = 0, gerr = None, gctx = c\<rparr>"

definition eg_Go :: "group \<Rightarrow> group" where
  "eg_Go grp = grp\<lparr>wg := wg grp + 1\<rparr>"

definition eg_done :: "error option \<Rightarrow> group \<Rightarrow> group" where
  "eg_done err grp =
     (let grp1 = (if err \<noteq> None \<and> gerr grp = None
                  then grp\<lparr>gerr := err, gctx := cancel (gctx grp)\<rparr> else grp)
      in grp1\<lparr>wg := wg grp1 - 1\<rparr>)"

definition eg_Wait :: "group \<Rightarrow> (error option \<times> group) option" where
  "eg_Wait grp =
     (if wg grp = 0 then Some (gerr grp, grp\<lparr>gctx := cancel (gctx grp)\<rparr>) else None)"

text \<open>
  \<^verbatim>\<open>
  func GoEg[T any](eg *errgroup.Group, f func() (T, error)) Rdv[T] {
      rv := Rdv[T]{make(chan rdvData[T], 1)}
      eg.Go(func() error {
          defer close(rv.ch)
          fs := util.SafeFunc0E(f)
          res, err := fs()
          data := rdvData[T]{res, err, true}
          rv.ch <- data
          return err
      })
      return rv
  }
  \<close>
  The member goroutine makes the steps of \<open>Go\<close>'s goroutine and, after the deferred close,
  hands its error to the group (\<open>GReturn\<close>). \<open>GoEg_rest\<close> is a step after the call of
  \<open>fs\<close>.
\<close>

definition GoEg :: "group \<Rightarrow> 'a goroutine \<times> group" where
  "GoEg grp = (\<lparr>gpc = GCall, gch = make_chan 1\<rparr>, eg_Go grp)"

definition GoEg_rest :: "'a goroutine \<Rightarrow> group \<Rightarrow> ('a goroutine \<times> group) option" where
  "GoEg_rest g grp =
     (case gpc g of
        GCall \<Rightarrow> None
      | GSend data \<Rightarrow> (case send_data data g of None \<Rightarrow> None | Some g' \<Rightarrow> Some (g', grp))
      | GClose err \<Rightarrow>
          (case chan_close (gch g) of
             Some c \<Rightarrow> Some (g\<lparr>gpc := GReturn err, gch := c\<rparr>, grp)
           | None \<Rightarrow> Some (g\<lparr>gpc := GCrash\<rparr>, grp))
      | GReturn err \<Rightarrow> Some (g\<lparr>gpc := GExit\<rparr>, eg_done err grp)
      | GExit \<Rightarrow> None
      | GCrash \<Rightarrow> None)"

definition GoEg_step ::
  "'a \<Rightarrow> (unit \<Rightarrow> 'a outcome) \<Rightarrow> 'a goroutine \<Rightarrow> group \<Rightarrow> ('a goroutine \<times> group) option" where
  "GoEg_step zero f g grp =
     (case gpc g of GCall \<Rightarrow> Some (call_fs zero f g, grp) | _ \<Rightarrow> GoEg_rest g grp)"

text \<open>
  \<^verbatim>\<open>
  func CtxApplyWatch[T any](ctx, f) func() (T, error) {
      fc := CtxApply(ctx, f)
      return func() (T, error) {
          rv := Go(fc)
          return rv.ReceiveWatch(ctx)
      }
  }
  \<close>
  A member of the fail-fast combinators runs this closure as its \<open>f\<close>, so its call of
  \<open>fs\<close> takes two steps: it launches the inner goroutine (\<open>inner\<close> becomes \<open>Some Go\<close>), and
  it comes back from \<open>ReceiveWatch\<close> on the inner handle, with the pair received or with a
  panic; \<open>fs\<close> then turns that outcome into the member's record. The other steps are
  those of \<open>GoEg\<close>. The state of a member is its goroutine, the inner goroutine, and the
  group.
\<close>

definition member_step ::
  "select_case \<Rightarrow> 'a \<Rightarrow> 'a goroutine \<Rightarrow> 'a goroutine option \<Rightarrow> group
     \<Rightarrow> ('a goroutine \<times> 'a goroutine option \<times> group) option" where
  "member_step pick zero g inner grp =
     (case gpc g of
        GCall \<Rightarrow>
          (case inner of
             None \<Rightarrow> Some (g, Some Go, grp)
           | Some gi \<Rightarrow>
               (case ReceiveWatch pick zero (gch gi) (gctx grp) of
                  Blocked \<Rightarrow> None
                | Panic p \<Rightarrow> Some (call_fs zero (\<lambda>_. Panics p) g, inner, grp)
                | Return r c \<Rightarrow>
                    Some (call_fs zero (\<lambda>_. Returns (fst r) (snd r)) g, Some (gi\<lparr>gch := c\<rparr>), grp)))
      | _ \<Rightarrow> (case GoEg_rest g grp of None \<Rightarrow> None | Some (g', grp') \<Rightarrow> Some (g', inner, grp')))"

text \<open>One step of the inner goroutine of a member, which runs \<open>fc = CtxApply(egCtx, f)\<close>.\<close>

definition inner_step ::
  "'a \<Rightarrow> (ctx \<Rightarrow> 'a outcome) \<Rightarrow> 'a goroutine option \<Rightarrow> group \<Rightarrow> 'a goroutine option" where
  "inner_step zero f inner grp =
     (case inner of None \<Rightarrow> None | Some gi \<Rightarrow> Go_step zero (CtxApply (gctx grp) f) gi)"

text \<open>The token of the caller fires: the derived context is done with it.\<close>

definition fire_derived :: "reason \<Rightarrow> group \<Rightarrow> group" where
  "fire_derived r grp = (if gctx grp = None then grp\<lparr>gctx := Some r\<rparr> else grp)"

section \<open>Package rdvext: the fail-fast combinators\<close>

text \<open>
  \<^verbatim>\<open>
  func RunSliceEg[T any](ctx context.Context, funcs ...func(context.Context) (T, error),
  ) ([]T, error) {
      eg, egCtx := errgroup.WithContext(ctx)
      rvs := make([]rdv.Rdv[T], len(funcs))
      for i, f := range funcs {
          rvs[i] = rdv.GoEg(eg, rdv.CtxApplyWatch(egCtx, f))
      }
      err := eg.Wait()
      if err != nil {
          return nil, err
      }
      results := make([]T, len(funcs))
      for i := 0; i < len(rvs); i++ {
          results[i], _ = rvs[i].Receive()
      }
      return results, err
  }
  \<close>
  The returned slice is \<open>None\<close> for the nil slice and \<open>Some xs\<close> otherwise.
  \<open>RunSliceEg_init\<close> is the state once the launching loop is through.
\<close>

primrec GoEg_all :: "'f list \<Rightarrow> group \<Rightarrow> 'a goroutine list \<times> group" where
  "GoEg_all [] grp = ([], grp)"
| "GoEg_all (f # fs) grp =
     (let (g, grp1) = GoEg grp; (gs, grp2) = GoEg_all fs grp1 in (g # gs, grp2))"

record 'a RunSliceEg_state =
  se_ctx :: ctx
  se_eg :: group
  se_rvs :: "'a goroutine list"
  se_inner :: "'a goroutine option list"
  se_results :: "'a list"
  se_waiter :: "('a list option \<times> error option) wpc"

definition RunSliceEg_init :: "ctx \<Rightarrow> (ctx \<Rightarrow> 'a outcome) list \<Rightarrow> 'a RunSliceEg_state" where
  "RunSliceEg_init c funcs =
     (let (rvs, eg) = GoEg_all funcs (WithContext c)
      in \<lparr>se_ctx = c, se_eg = eg, se_rvs = rvs, se_inner = map (\<lambda>f. None) funcs,
          se_results = [], se_waiter = WWait\<rparr>)"

definition RunSliceEg_step ::
  "'a \<Rightarrow> (ctx \<Rightarrow> 'a outcome) list \<Rightarrow> event \<Rightarrow> 'a RunSliceEg_state \<Rightarrow> 'a RunSliceEg_state option" where
  "RunSliceEg_step zero funcs ev s =
     (case ev of
        Fire r \<Rightarrow>
          if se_ctx s = None then Some (s\<lparr>se_ctx := Some r, se_eg := fire_derived r (se_eg s)\<rparr>)
          else None
      | Task i \<Rightarrow>
          if i < length (se_rvs s) then
            (case inner_step zero (funcs ! i) (se_inner s ! i) (se_eg s) of
               None \<Rightarrow> None
             | Some gi \<Rightarrow> Some (s\<lparr>se_inner := (se_inner s)[i := Some gi]\<rparr>))
          else None
      | Member i pick \<Rightarrow>
          if i < length (se_rvs s) then
            (case member_step pick zero (se_rvs s ! i) (se_inner s ! i) (se_eg s) of
               None \<Rightarrow> None
             | Some (g, inner, grp) \<Rightarrow>
                 Some (s\<lparr>se_rvs := (se_rvs s)[i := g], se_inner := (se_inner s)[i := inner],
                         se_eg := grp\<rparr>))
          else None
      | Waiter pick \<Rightarrow>
          (case se_waiter s of
             WWait \<Rightarrow>
               (case eg_Wait (se_eg s) of
                  None \<Rightarrow> None
                | Some (err, grp) \<Rightarrow>
                    if err \<noteq> None then Some (s\<lparr>se_eg := grp, se_waiter := WReturned (None, err)\<rparr>)
                    else Some (s\<lparr>se_eg := grp, se_results := replicate (length funcs) zero,
                                 se_waiter := WRecv 0\<rparr>))
           | WRecv i \<Rightarrow>
               if i < length (se_rvs s) then
                 (case Receive zero (gch (se_rvs s ! i)) of
                    Blocked \<Rightarrow> None
                  | Panic p \<Rightarrow> Some (s\<lparr>se_waiter := WPanicked p\<rparr>)
                  | Return r c \<Rightarrow>
                      Some (s\<lparr>se_rvs := (se_rvs s)[i := (se_rvs s ! i)\<lparr>gch := c\<rparr>],
                              se_results := (se_results s)[i := fst r],
                              se_waiter := WRecv (i + 1)\<rparr>))
               else Some (s\<lparr>se_waiter := WReturned (Some (se_results s), None)\<rparr>)
           | WReturned r \<Rightarrow> None
           | WPanicked p \<Rightarrow> None))"

text \<open>
  \<^verbatim>\<open>
  func Run2Eg[T1, T2 any](ctx, f1, f2) (util.Tuple2[T1, T2], error) {
      eg, egCtx := errgroup.WithContext(ctx)
      rv1 := rdv.GoEg(eg, rdv.CtxApplyWatch(egCtx, f1))
      rv2 := rdv.GoEg(eg, rdv.CtxApplyWatch(egCtx, f2))
      results := util.Tuple2[T1, T2]{}
      err := eg.Wait()
      if err != nil {
          return results, err
      }
      results.X1, _ = rv1.ReceiveWatch(ctx)
      results.X2, _ = rv2.ReceiveWatch(ctx)
      return results, err
  }
  \<close>
  The members and their inner goroutines are \<open>Member 0\<close>, \<open>Member 1\<close>, \<open>Task 0\<close> and
  \<open>Task 1\<close>. The two receives after Wait are \<open>ReceiveWatch\<close> on the token of the caller.
\<close>

record ('a, 'b) Run2Eg_state =
  e2_ctx :: ctx
  e2_eg :: group
  e2_rv1 :: "'a goroutine"
  e2_rv2 :: "'b goroutine"
  e2_inner1 :: "'a goroutine option"
  e2_inner2 :: "'b goroutine option"
  e2_results :: "('a, 'b) Tuple2"
  e2_waiter :: "(('a, 'b) Tuple2 \<times> error option) wpc"

definition Run2Eg_init :: "'a \<Rightarrow> 'b \<Rightarrow> ctx \<Rightarrow> ('a, 'b) Run2Eg_state" where
  "Run2Eg_init zero1 zero2 c =
     (let (rv1, eg1) = GoEg (WithContext c); (rv2, eg2) = GoEg eg1
      in \<lparr>e2_ctx = c, e2_eg = eg2, e2_rv1 = rv1, e2_rv2 = rv2,
          e2_inner1 = None, e2_inner2 = None,
          e2_results = \<lparr>X1 = zero1, X2 = zero2\<rparr>, e2_waiter = WWait\<rparr>)"

definition Run2Eg_step ::
  "'a \<Rightarrow> 'b \<Rightarrow> (ctx \<Rightarrow> 'a outcome) \<Rightarrow> (ctx \<Rightarrow> 'b outcome) \<Rightarrow> event
     \<Rightarrow> ('a, 'b) Run2Eg_state \<Rightarrow> ('a, 'b) Run2Eg_state option" where
  "Run2Eg_step zero1 zero2 f1 f2 ev s =
     (case ev of
        Fire r \<Rightarrow>
          if e2_ctx s = None then Some (s\<lparr>e2_ctx := Some r, e2_eg := fire_derived r (e2_eg s)\<rparr>)
          else None
      | Task i \<Rightarrow>
          if i = 0 then
            (case inner_step zero1 f1 (e2_inner1 s) (e2_eg s) of
               None \<Rightarrow> None
             | Some gi \<Rightarrow> Some (s\<lparr>e2_inner1 := Some gi\<rparr>))
          else if i = 1 then
            (case inner_step zero2 f2 (e2_inner2 s) (e2_eg s) of
               None \<Rightarrow> None
             | Some gi \<Rightarrow> Some (s\<lparr>e2_inner2 := Some gi\<rparr>))
          else None
      | Member i pick \<Rightarrow>
          if i = 0 then
            (case member_step pick zero1 (e2_rv1 s) (e2_inner1 s) (e2_eg s) of
               None \<Rightarrow> None
             | Some (g, inner, grp) \<Rightarrow> Some (s\<lparr>e2_rv1 := g, e2_inner1 := inner, e2_eg := grp\<rparr>))
          else if i = 1 then
            (case member_step pick zero2 (e2_rv2 s) (e2_inner2 s) (e2_eg s) of
               None \<Rightarrow> None
             | Some (g, inner, grp) \<Rightarrow> Some (s\<lparr>e2_rv2 := g, e2_inner2 := inner, e2_eg := grp\<rparr>))
          else None
      | Waiter pick \<Rightarrow>
          (case e2_waiter s of
             WWait \<Rightarrow>
               (case eg_Wait (e2_eg s) of
                  None \<Rightarrow> None
                | Some (err, grp) \<Rightarrow>
                    if err \<noteq> None
                    then Some (s\<lparr>e2_eg := grp, e2_waiter := WReturned (e2_results s, err)\<rparr>)
                    else Some (s\<lparr>e2_eg := grp, e2_waiter := WRecv 0\<rparr>))
           | WRecv i \<Rightarrow>
               if i = 0 then
                 (case ReceiveWatch pick zero1 (gch (e2_rv1 s)) (e2_ctx s) of
                    Blocked \<Rightarrow> None
                  | Panic p \<Rightarrow> Some (s\<lparr>e2_waiter := WPanicked p\<rparr>)
                  | Return r c \<Rightarrow>
                      Some (s\<lparr>e2_rv1 := (e2_rv1 s)\<lparr>gch := c\<rparr>,
                              e2_results := (e2_results s)\<lparr>X1 := fst r\<rparr>,
                              e2_waiter := WRecv 1\<rparr>))
               else if i = 1 then
                 (case ReceiveWatch pick zero2 (gch (e2_rv2 s)) (e2_ctx s) of
                    Blocked \<Rightarrow> None
                  | Panic p \<Rightarrow> Some (s\<lparr>e2_waiter := WPanicked p\<rparr>)
                  | Return r c \<Rightarrow>
                      Some (s\<lparr>e2_rv2 := (e2_rv2 s)\<lparr>gch := c\<rparr>,
                              e2_results := (e2_results s)\<lparr>X2 := fst r\<rparr>,
                              e2_waiter := WRecv 2\<rparr>))
               else Some (s\<lparr>e2_waiter := WReturned (e2_results s, None)\<rparr>)
           | WReturned r \<Rightarrow> None
           | WPanicked p \<Rightarrow> None))"

section \<open>One handle and its holder\<close>

text \<open>
  A handle from \<open>Go\<close> or from \<open>GoEg\<close> with everything that can happen to it: the token
  fires, the goroutine moves, or the holder of the handle calls \<open>Receive\<close> or
  \<open>ReceiveWatch\<close> on it. A call that is blocked is no event; a call that panics leaves
  the handle as it was; a call that returns leaves the channel as the call left it.
\<close>

datatype launcher = ByGo | ByGoEg

datatype hevent = HFire reason | HStep | HReceive | HReceiveWatch select_case

record 'a handle =
  h_ctx :: ctx
  h_g :: "'a goroutine"
  h_grp :: group

definition launch :: "launcher \<Rightarrow> ctx \<Rightarrow> group \<Rightarrow> 'a handle" where
  "launch l c grp =
     (case l of
        ByGo \<Rightarrow> \<lparr>h_ctx = c, h_g = Go, h_grp = grp\<rparr>
      | ByGoEg \<Rightarrow> (let (g, grp') = GoEg grp in \<lparr>h_ctx = c, h_g = g, h_grp = grp'\<rparr>))"

definition handle_step ::
  "launcher \<Rightarrow> 'a \<Rightarrow> (ctx \<Rightarrow> 'a outcome) \<Rightarrow> hevent \<Rightarrow> 'a handle \<Rightarrow> 'a handle option" where
  "handle_step l zero f ev s =
     (case ev of
        HFire r \<Rightarrow> if h_ctx s = None then Some (s\<lparr>h_ctx := Some r\<rparr>) else None
      | HStep \<Rightarrow>
          (case l of
             ByGo \<Rightarrow>
               (case Go_step zero (CtxApply (h_ctx s) f) (h_g s) of
                  None \<Rightarrow> None
                | Some g \<Rightarrow> Some (s\<lparr>h_g := g\<rparr>))
           | ByGoEg \<Rightarrow>
               (case GoEg_step zero (CtxApply (h_ctx s) f) (h_g s) (h_grp s) of
                  None \<Rightarrow> None
                | Some (g, grp) \<Rightarrow> Some (s\<lparr>h_g := g, h_grp := grp\<rparr>)))
      | HReceive \<Rightarrow>
          (case Receive zero (gch (h_g s)) of
             Blocked \<Rightarrow> None
           | Panic p \<Rightarrow> Some s
           | Return r c \<Rightarrow> Some (s\<lparr>h_g := (h_g s)\<lparr>gch := c\<rparr>\<rparr>))
      | HReceiveWatch pick \<Rightarrow>
          (case ReceiveWatch pick zero (gch (h_g s)) (h_ctx s) of
             Blocked \<Rightarrow> None
           | Panic p \<Rightarrow> Some s
           | Return r c \<Rightarrow> Some (s\<lparr>h_g := (h_g s)\<lparr>gch := c\<rparr>\<rparr>)))"

text \<open>
  What holds of the goroutine and its channel in every state the handle reaches; \<open>got\<close>
  says that the record has been received.
\<close>

definition hinv :: "bool \<Rightarrow> 'a goroutine \<Rightarrow> bool" where
  "hinv got g =
     (cap (gch g) = 1 \<and>
      (if got then buf (gch g) = [] else length (buf (gch g)) \<le> 1) \<and>
      (case gpc g of
         GCall \<Rightarrow> \<not> got \<and> buf (gch g) = [] \<and> \<not> closed (gch g)
       | GSend d \<Rightarrow> \<not> got \<and> buf (gch g) = [] \<and> \<not> closed (gch g)
       | GClose e \<Rightarrow> \<not> closed (gch g)
       | GReturn e \<Rightarrow> closed (gch g)
       | GExit \<Rightarrow> closed (gch g)
       | GCrash \<Rightarrow> False))"

section \<open>The obsolete package: waiters and promises\<close>

text \<open>
  \<^verbatim>\<open>
  type preWaiter struct {
      Ctx        context.Context
      WaitCh     chan error
      ActiveGate chan bool
      WaitChGate *sync.Once
      Err        error
  }
  type SingleWaiter struct { P preWaiter; ComplCh chan Unit }
  type promiseImpl[T any] struct { ResWE ResultWithError[T]; Waiter SingleWaiter }
  \<close>
  The context, the channels and the \<^verbatim>\<open>sync.Once\<close> are references: every copy of a
  waiter points to the same objects, which are the store \<open>wstore\<close> (with the result
  \<open>ResWE\<close> of the promise, which the task goroutine writes through a pointer, and the
  goroutines under way). The field \<open>Err\<close> is a value: every copy of the struct has its
  own. \<open>st_WaitChGate\<close> says whether the \<^verbatim>\<open>Once\<close> has run its function.
\<close>

record preWaiter =
  Err :: "error option"

record SingleWaiter =
  P :: preWaiter

record 'a wstore =
  st_Ctx :: ctx
  st_WaitCh :: "error option chan"
  st_ActiveGate :: "bool chan"
  st_WaitChGate :: bool
  st_ComplCh :: "unit chan"
  st_ResWE :: "'a ResultWithError"
  st_tasks :: nat
  st_closers :: nat

text \<open>
  A call of the obsolete package: it stands blocked, having left the store as given
  (\<open>Pending\<close>), it panicked, or it returned.
\<close>

datatype ('r, 's) await = Pending 's | Panicked iface | Got 'r 's

text \<open>
  \<^verbatim>\<open>
  func (w preWaiter) ErrWait() error {
      w.WaitChGate.Do(func() {
          err := w.Err
          select {
          case errW := <-w.WaitCh:
              err = errW
          case <-w.Ctx.Done():
              err = w.Ctx.Err()
          }
          w.Err = err
      })
      return w.Err
  }
  \<close>
  The receiver \<open>w\<close> is a copy of the caller's struct: the assignment to \<open>w.Err\<close> changes
  the copy, which is gone when the method returns.
\<close>

definition ErrWait :: "select_case \<Rightarrow> preWaiter \<Rightarrow> 'a wstore \<Rightarrow> (error option, 'a wstore) await" where
  "ErrWait pick w st =
     (if st_WaitChGate st then Got (Err w) st
      else
        (case chan_recv None (st_WaitCh st) of
           RecvBlocked \<Rightarrow>
             if ctx_Done (st_Ctx st) then
               (let w = w\<lparr>Err := ctx_Err (st_Ctx st)\<rparr>
                in Got (Err w) (st\<lparr>st_WaitChGate := True\<rparr>))
             else Pending st
         | Received errW ch \<Rightarrow>
             if ctx_Done (st_Ctx st) \<and> pick = DoneCase then
               (let w = w\<lparr>Err := ctx_Err (st_Ctx st)\<rparr>
                in Got (Err w) (st\<lparr>st_WaitChGate := True\<rparr>))
             else
               (let w = w\<lparr>Err := errW\<rparr>
                in Got (Err w) (st\<lparr>st_WaitCh := ch, st_WaitChGate := True\<rparr>))))"

text \<open>
  \<^verbatim>\<open>
  func (w SingleWaiter) Wait() error {
      if active := <-w.P.ActiveGate; active {
          close(w.P.ActiveGate)
          go func() {
              <-w.ComplCh
              close(w.P.WaitCh)
          }()
      }
      return w.P.ErrWait()
  }
  \<close>
\<close>

definition Wait :: "select_case \<Rightarrow> SingleWaiter \<Rightarrow> 'a wstore \<Rightarrow> (error option, 'a wstore) await" where
  "Wait pick w st =
     (case chan_recv False (st_ActiveGate st) of
        RecvBlocked \<Rightarrow> Pending st
      | Received active ch \<Rightarrow>
          if active then
            (case chan_close ch of
               None \<Rightarrow> Panicked (IValue ''close of closed channel'')
             | Some ch' \<Rightarrow>
                 ErrWait pick (P w) (st\<lparr>st_ActiveGate := ch', st_closers := st_closers st + 1\<rparr>))
          else ErrWait pick (P w) (st\<lparr>st_ActiveGate := ch\<rparr>))"

text \<open>
  \<^verbatim>\<open>
  func (P *promiseImpl[T]) Await() (T, error) {
      errW := P.Waiter.Wait()
      value := P.ResWE.Value
      err := P.ResWE.Error
      if errW != nil {
          err = errW
      }
      return value, err
  }
  \<close>
\<close>

definition Await_rest ::
  "(error option, 'a wstore) await \<Rightarrow> ('a \<times> error option, 'a wstore) await" where
  "Await_rest waited =
     (case waited of
        Pending st \<Rightarrow> Pending st
      | Panicked p \<Rightarrow> Panicked p
      | Got errW st \<Rightarrow>
          (let v = Value (st_ResWE st);
               err = Error (st_ResWE st);
               err = (if errW \<noteq> None then errW else err)
           in Got (v, err) st))"

definition Await ::
  "select_case \<Rightarrow> SingleWaiter \<Rightarrow> 'a wstore \<Rightarrow> ('a \<times> error option, 'a wstore) await" where
  "Await pick waiter st = Await_rest (Wait pick waiter st)"

text \<open>
  An \<open>Await\<close> that stands blocked is blocked in the \<^verbatim>\<open>select\<close> of \<open>ErrWait\<close>, inside the
  \<^verbatim>\<open>Once\<close>; when the store has changed, it goes on from there.
\<close>

definition Await_resume ::
  "select_case \<Rightarrow> SingleWaiter \<Rightarrow> 'a wstore \<Rightarrow> ('a \<times> error option, 'a wstore) await" where
  "Await_resume pick waiter st = Await_rest (ErrWait pick (P waiter) st)"

text \<open>
  \<^verbatim>\<open>Async(ctx, f)\<close> makes the promise: \<^verbatim>\<open>MakeSingleWaiter\<close> makes the channels and puts
  \<^verbatim>\<open>true\<close> into \<open>ActiveGate\<close>, and the obsolete \<^verbatim>\<open>Go\<close> takes it out, starts the task goroutine
  and puts it back. The task goroutine
  \<^verbatim>\<open>
  go func() {
      res, err := fs(w.P.Ctx)
      *pResult = ResultWithError[T]{res, err}
      close(w.ComplCh)
  }()
  \<close>
  is one step (\<open>task_finishes\<close>, with \<open>fs\<close> the fault-safe \<open>f\<close>), and so is the goroutine
  that \<open>Wait\<close> starts (\<open>closer_runs\<close>, possible once \<open>ComplCh\<close> is closed). The task
  goroutine defers nothing: when \<open>fs\<close> ends it with Goexit, it is over with nothing written
  and \<open>ComplCh\<close> open.
\<close>

definition Async :: "'a \<Rightarrow> ctx \<Rightarrow> SingleWaiter \<times> 'a wstore" where
  "Async zero c =
     (\<lparr>P = \<lparr>Err = None\<rparr>\<rparr>,
      \<lparr>st_Ctx = c, st_WaitCh = make_chan 0, st_ActiveGate = (make_chan 1)\<lparr>buf := [True]\<rparr>,
       st_WaitChGate = False, st_ComplCh = make_chan 0,
       st_ResWE = \<lparr>Value = zero, Error = None\<rparr>, st_tasks = 1, st_closers = 0\<rparr>)"

definition task_finishes :: "'a \<Rightarrow> (ctx \<Rightarrow> 'a outcome) \<Rightarrow> 'a wstore \<Rightarrow> 'a wstore option" where
  "task_finishes zero f st =
     (if st_tasks st = 0 then None
      else
        (case SafeFunc0E zero (CtxApply (st_Ctx st) f) () of
           Returns res err \<Rightarrow>
             (case chan_close (st_ComplCh st) of
                Some ch \<Rightarrow>
                  Some (st\<lparr>st_ResWE := \<lparr>Value = res, Error = err\<rparr>, st_ComplCh := ch,
                           st_tasks := st_tasks st - 1\<rparr>)
              | None \<Rightarrow> None)
         | Panics p \<Rightarrow> None
         | Goexits \<Rightarrow> Some (st\<lparr>st_tasks := st_tasks st - 1\<rparr>)))"

definition closer_runs :: "'a wstore \<Rightarrow> 'a wstore option" where
  "closer_runs st =
     (if 0 < st_closers st \<and> closed (st_ComplCh st) then
        (case chan_close (st_WaitCh st) of
           None \<Rightarrow> None
         | Some ch \<Rightarrow> Some (st\<lparr>st_WaitCh := ch, st_closers := st_closers st - 1\<rparr>))
      else None)"

section \<open>The tasks of the examples\<close>

text \<open>
  The example programs run these tasks (their sleeps are the order of the events of an
  execution here):
  \<^verbatim>\<open>
  func f1(_ context.Context) (int, error) { ...; return 1, nil }
  func f2(_ context.Context) (int, error) { ...; panic("f2 panicked") }
  func f3(_ context.Context) (int, error) { ...; return 0, errors.New("f3 errored-out") }
  func f4(ctx context.Context) (int, error) {
      ...
      if ctx.Err() != nil { return 444, errors.New("f4 aborted") }
      return 4, nil
  }
  \<close>
\<close>

definition f1 :: "ctx \<Rightarrow> int outcome" where
  "f1 c = Returns 1 None"

definition f2 :: "ctx \<Rightarrow> int outcome" where
  "f2 c = Panics (IValue ''f2 panicked'')"

definition f3 :: "ctx \<Rightarrow> int outcome" where
  "f3 c = Returns 0 (Some (ErrorString ''f3 errored-out''))"

definition f4 :: "ctx \<Rightarrow> int outcome" where
  "f4 c = (if ctx_Err c \<noteq> None then Returns 444 (Some (ErrorString ''f4 aborted'')) else Returns 4 None)"

section \<open>Invariants of the executions\<close>

text \<open>What holds of every state an execution of \<open>RunSlice\<close> and of \<open>Run2\<close> reaches.\<close>

definition rs_ok :: "nat \<Rightarrow> 'a RunSlice_state \<Rightarrow> bool" where
  "rs_ok n s =
     (length (rs_rvs s) = n \<and> length (rs_results s) = n \<and>
      (case rs_waiter s of
         WReturned r \<Rightarrow> fst r = rs_results s \<and> snd r = first_error (map Error (fst r))
       | _ \<Rightarrow> True))"

text \<open>
  Every record a goroutine builds has \<open>chanOpen\<close> set: so has the record it is about to
  send, and so has every record in the buffer of its channel. In \<open>RunSlice\<close> every
  goroutine keeps this and the invariant of a handle.
\<close>

definition hopen :: "'a goroutine \<Rightarrow> bool" where
  "hopen g =
     (list_all chanOpen (buf (gch g)) \<and> (case gpc g of GSend d \<Rightarrow> chanOpen d | _ \<Rightarrow> True))"

definition rs_live :: "'a RunSlice_state \<Rightarrow> bool" where
  "rs_live s = (\<forall>j < length (rs_rvs s). hinv False (rs_rvs s ! j) \<and> hopen (rs_rvs s ! j))"

text \<open>
  Entry \<open>i\<close> of the results holds \<open>v\<close> and the caller is past the receive that wrote it.
\<close>

definition rs_kept :: "nat \<Rightarrow> 'a ResultWithError \<Rightarrow> 'a RunSlice_state \<Rightarrow> bool" where
  "rs_kept i v s =
     (i < length (rs_results s) \<and> rs_results s ! i = v \<and>
      (case rs_waiter s of WRecv k \<Rightarrow> i < k | WWait \<Rightarrow> False | _ \<Rightarrow> True))"

definition r2_ok :: "('a, 'b) Run2_state \<Rightarrow> bool" where
  "r2_ok s =
     (case r2_waiter s of
        WReturned r \<Rightarrow> snd r = first_error [Error (X1 (fst r)), Error (X2 (fst r))]
      | _ \<Rightarrow> True)"

text \<open>
  What holds of every state an execution of \<open>RunSliceEg\<close> and of \<open>Run2Eg\<close> reaches: a
  return with an error carries the nil slice (the tuple of zero values) and the first error
  of the group.
\<close>

definition se_ok :: "'a RunSliceEg_state \<Rightarrow> bool" where
  "se_ok s =
     (case se_waiter s of
        WReturned r \<Rightarrow> (if snd r \<noteq> None then fst r = None \<and> gerr (se_eg s) = snd r else True)
      | _ \<Rightarrow> True)"

definition e2_ok :: "'a \<Rightarrow> 'b \<Rightarrow> ('a, 'b) Run2Eg_state \<Rightarrow> bool" where
  "e2_ok zero1 zero2 s =
     (case e2_waiter s of
        WWait \<Rightarrow> e2_results s = \<lparr>X1 = zero1, X2 = zero2\<rparr>
      | WReturned r \<Rightarrow>
          (if snd r \<noteq> None then fst r = \<lparr>X1 = zero1, X2 = zero2\<rparr> \<and> gerr (e2_eg s) = snd r
           else True)
      | _ \<Rightarrow> True)"

section \<open>Properties of the fault-safety wrapper\<close>

lemma SafeFunc0E_Returns:
  "f () = Returns v e \<Longrightarrow> SafeFunc0E zero f () = Returns v e"
  by (simp add: SafeFunc0E_def recover_def)

lemma SafeFunc0E_Panics:
  "f () = Panics p \<Longrightarrow> p \<noteq> INil \<Longrightarrow> SafeFunc0E zero f () = Returns zero (Some (ToError p))"
  by (simp add: SafeFunc0E_def recover_def)

lemma SafeFunc0E_Goexits:
  "f () = Goexits \<Longrightarrow> SafeFunc0E zero f () = Goexits"
  by (simp add: SafeFunc0E_def recover_def)

lemma SafeFunc0E_never_panics: "SafeFunc0E zero f () \<noteq> Panics p"
  by (simp add: SafeFunc0E_def Let_def split: prod.splits outcome.splits)

lemma ToError_error: "ToError (IError e) = e"
  by (simp add: ToError_def)

lemma ToError_value: "ToError (IValue s) = ErrorOf (IValue s) \<and> ErrorMsg (ToError (IValue s)) = s"
  by (simp add: ToError_def)

text \<open>
  Claim C1. The wrapper never panics and hands a returned pair through unchanged, and a
  panic with a non-nil payload becomes the zero value with \<open>ToError\<close> of the payload (the
  lemmas above). But for a callable that panics with the nil payload, \<^verbatim>\<open>panic(nil)\<close>,
  the guard \<^verbatim>\<open>err0 != nil\<close> takes the panic for a normal return: the wrapper returns the
  zero value with the nil error, not with \<open>ErrorOf\<close> of the payload (whose message would be
  \<^verbatim>\<open><nil>\<close>), although the function panicked.
\<close>

theorem SafeFunc0E_panic_nil:
  "SafeFunc0E zero (\<lambda>_. Panics INil) () = Returns zero None
   \<and> SafeFunc0E zero (\<lambda>_. Panics INil) () \<noteq> Returns zero (Some (ErrorOf INil))
   \<and> ToError INil = ErrorOf INil \<and> ErrorMsg (ErrorOf INil) = ''<nil>''"
  by (simp add: SafeFunc0E_def recover_def ToError_def)

section \<open>Facts about executions\<close>


lemmas model_defs =
  RunSlice_step_def RunSlice_init_def Run2_step_def Run2_init_def
  Go_step_def Go_def call_fs_def send_data_def
  SafeFunc0E_def recover_def ToError_def CtxApply_def chan_send_def chan_recv_def chan_close_def
  make_chan_def ReceiveWatch_def Receive_def rdvData_zero_def ctx_Done_def ctx_Err_def
  f1_def f2_def f3_def f4_def

lemma exec_invariant:
  "exec step evs s = Some s' \<Longrightarrow> I s \<Longrightarrow> (\<And>e a b. step e a = Some b \<Longrightarrow> I a \<Longrightarrow> I b) \<Longrightarrow> I s'"
proof (induction evs arbitrary: s)
  case Nil
  then show ?case by simp
next
  case (Cons e evs)
  then show ?case by (auto split: option.splits)
qed

lemma exec_append:
  "exec step (xs @ ys) s = (case exec step xs s of None \<Rightarrow> None | Some s' \<Rightarrow> exec step ys s')"
  by (induction xs arbitrary: s) (auto split: option.splits)

lemma ctx_Err_done: "c \<noteq> None \<Longrightarrow> ctx_Err c = Some Canceled \<or> ctx_Err c = Some DeadlineExceeded"
  by (auto simp: ctx_Err_def split: option.splits reason.splits)

section \<open>Properties of the rendezvous\<close>

lemmas handle_defs = handle_step_def launch_def GoEg_step_def GoEg_rest_def GoEg_def
  WithContext_def eg_Go_def eg_done_def cancel_def closed_rendezvous_def

lemma call_fs_cases:
  obtains (sent) d where "call_fs zero f g = g\<lparr>gpc := GSend d\<rparr>" and "chanOpen d"
  | (goexit) "call_fs zero f g = g\<lparr>gpc := GClose None\<rparr>"
  using SafeFunc0E_never_panics[of zero f]
  by (cases "SafeFunc0E zero f ()") (auto simp: call_fs_def)

lemma Go_step_hinv: "Go_step zero f g = Some g' \<Longrightarrow> hinv got g \<Longrightarrow> hinv got g'"
proof (cases rule: call_fs_cases[of zero f g])
  case (sent d)
  show "Go_step zero f g = Some g' \<Longrightarrow> hinv got g \<Longrightarrow> hinv got g'"
    by (auto simp: Go_step_def sent(1) hinv_def send_data_def chan_send_def chan_close_def
        split: gpc.splits sent.splits option.splits if_splits)
next
  case goexit
  show "Go_step zero f g = Some g' \<Longrightarrow> hinv got g \<Longrightarrow> hinv got g'"
    by (auto simp: Go_step_def goexit hinv_def send_data_def chan_send_def chan_close_def
        split: gpc.splits sent.splits option.splits if_splits)
qed

lemma GoEg_step_hinv: "GoEg_step zero f g grp = Some (g', grp') \<Longrightarrow> hinv got g \<Longrightarrow> hinv got g'"
proof (cases rule: call_fs_cases[of zero f g])
  case (sent d)
  show "GoEg_step zero f g grp = Some (g', grp') \<Longrightarrow> hinv got g \<Longrightarrow> hinv got g'"
    by (auto simp: GoEg_step_def GoEg_rest_def sent(1) hinv_def send_data_def chan_send_def
        chan_close_def split: gpc.splits sent.splits option.splits if_splits)
next
  case goexit
  show "GoEg_step zero f g grp = Some (g', grp') \<Longrightarrow> hinv got g \<Longrightarrow> hinv got g'"
    by (auto simp: GoEg_step_def GoEg_rest_def goexit hinv_def send_data_def chan_send_def
        chan_close_def split: gpc.splits sent.splits option.splits if_splits)
qed

lemma Receive_hinv: "Receive zero (gch g) = Return r c \<Longrightarrow> hinv got g \<Longrightarrow> hinv got (g\<lparr>gch := c\<rparr>)"
  by (auto simp: Receive_def chan_recv_def hinv_def split: list.splits if_splits gpc.splits)

lemma ReceiveWatch_hinv:
  "ReceiveWatch pick zero (gch g) ct = Return r c \<Longrightarrow> hinv got g \<Longrightarrow> hinv got (g\<lparr>gch := c\<rparr>)"
  by (auto simp: ReceiveWatch_def chan_recv_def hinv_def Let_def split: list.splits if_splits gpc.splits)

lemma handle_step_hinv:
  "handle_step l zero f ev s = Some s' \<Longrightarrow> hinv got (h_g s) \<Longrightarrow> hinv got (h_g s')"
  by (auto simp: handle_step_def split: hevent.splits launcher.splits option.splits if_splits call.splits
      dest: Go_step_hinv GoEg_step_hinv Receive_hinv ReceiveWatch_hinv)

lemma launch_hinv: "hinv False (h_g (launch l c grp))"
  by (simp add: launch_def hinv_def Go_def GoEg_def make_chan_def split: launcher.splits)

lemma Receive_got:
  "Receive zero (gch g) = Return r c \<Longrightarrow> hinv False g \<Longrightarrow> hinv True (g\<lparr>gch := c\<rparr>)"
  by (auto simp: Receive_def chan_recv_def hinv_def rdvData_zero_def split: list.splits if_splits gpc.splits)

lemma ReceiveWatch_got:
  "ReceiveWatch pick zero (gch g) ct = Return r c \<Longrightarrow> c \<noteq> gch g \<Longrightarrow> hinv False g
     \<Longrightarrow> hinv True (g\<lparr>gch := c\<rparr>)"
  by (auto simp: ReceiveWatch_def chan_recv_def hinv_def rdvData_zero_def Let_def
      split: list.splits if_splits gpc.splits)

lemma handle_reach_hinv:
  assumes "exec (handle_step l zero f) evs (launch l c0 grp0) = Some s"
  shows "hinv False (h_g s)"
proof -
  have "hinv False (h_g (launch l c0 grp0 :: 'a handle))" by (rule launch_hinv)
  with assms show ?thesis
    by (rule exec_invariant) (rule handle_step_hinv)
qed

lemma handle_exec_hinv:
  assumes "exec (handle_step l zero f) evs s = Some s'" and "hinv got (h_g s)"
  shows "hinv got (h_g s')"
  using assms by (rule exec_invariant) (rule handle_step_hinv)

lemma got_closed:
  assumes "hinv True g" and "closed (gch g)"
  shows "Receive zero (gch g) = Panic closed_rendezvous"
    and "ReceiveWatch pick zero (gch g) ct = Panic closed_rendezvous
         \<or> ReceiveWatch pick zero (gch g) ct = Return (zero, ctx_Err ct) (gch g) \<and> ctx_Done ct"
    and "\<not> ctx_Done ct \<Longrightarrow> ReceiveWatch pick zero (gch g) ct = Panic closed_rendezvous"
  using assms
  by (auto simp: hinv_def Receive_def ReceiveWatch_def chan_recv_def rdvData_zero_def Let_def)

lemma got_open:
  assumes "hinv True g" and "\<not> closed (gch g)"
  shows "Receive zero (gch g) = Blocked"
    and "ReceiveWatch pick zero (gch g) ct = Blocked \<and> \<not> ctx_Done ct
         \<or> ReceiveWatch pick zero (gch g) ct = Return (zero, ctx_Err ct) (gch g) \<and> ctx_Done ct"
    and "\<exists>e. gpc g = GClose e"
  using assms
  by (auto simp: hinv_def Receive_def ReceiveWatch_def chan_recv_def rdvData_zero_def Let_def
      split: gpc.splits)

lemma close_step:
  assumes "gpc (h_g s) = GClose e" and "\<not> closed (gch (h_g s))"
  shows "\<exists>s'. handle_step l zero f HStep s = Some s' \<and> closed (gch (h_g s')) \<and> h_ctx s' = h_ctx s
           \<and> gpc (h_g s') = (case l of ByGo \<Rightarrow> GExit | ByGoEg \<Rightarrow> GReturn e)"
  using assms
  by (auto simp: handle_step_def Go_step_def GoEg_step_def GoEg_rest_def chan_close_def
      split: launcher.splits)








text \<open>
  Claim C6, as stated, fails when both events have happened before the \<^verbatim>\<open>select\<close>
  runs. The token fires while the slot is empty, then the record arrives, and
  \<open>ReceiveWatch\<close>, when the draw is the channel, returns the record and not the error of
  the token. And the record arrives while the token is not done, then the token fires,
  and \<open>ReceiveWatch\<close>, when the draw is the token, returns the zero value with \<open>Canceled\<close>,
  which is not what \<open>Receive\<close> returns.
\<close>

theorem ReceiveWatch_race_counterexample:
  "map_option (\<lambda>s. (h_ctx s, buf (gch (h_g s))))
     (exec (handle_step ByGo 0 f1) [HFire Cancel] (launch ByGo None (WithContext None)))
     = Some (Some Cancel, [])
   \<and> map_option (\<lambda>s. ReceiveWatch ChanCase 0 (gch (h_g s)) (h_ctx s))
     (exec (handle_step ByGo 0 f1) [HFire Cancel, HStep, HStep] (launch ByGo None (WithContext None)))
     = Some (Return (1, None) \<lparr>buf = [], cap = 1, closed = False\<rparr>)
   \<and> map_option (\<lambda>s. (h_ctx s, buf (gch (h_g s))))
     (exec (handle_step ByGo 0 f1) [HStep, HStep] (launch ByGo None (WithContext None)))
     = Some (None, [\<lparr>dvalue = 1, derr = None, chanOpen = True\<rparr>])
   \<and> map_option (\<lambda>s. ReceiveWatch DoneCase 0 (gch (h_g s)) (h_ctx s))
     (exec (handle_step ByGo 0 f1) [HStep, HStep, HFire Cancel] (launch ByGo None (WithContext None)))
     = Some (Return (0, Some Canceled)
         \<lparr>buf = [\<lparr>dvalue = 1, derr = None, chanOpen = True\<rparr>], cap = 1, closed = False\<rparr>)
   \<and> map_option (\<lambda>s. Receive 0 (gch (h_g s)))
     (exec (handle_step ByGo 0 f1) [HStep, HStep, HFire Cancel] (launch ByGo None (WithContext None)))
     = Some (Return (1, None) \<lparr>buf = [], cap = 1, closed = False\<rparr>)"
  by (simp add: model_defs handle_defs)

text \<open>
  Claim C6, amended to the moment the \<^verbatim>\<open>select\<close> runs. When the token is done and the
  slot is still empty, \<open>ReceiveWatch\<close> returns the zero value with the error of the token,
  \<open>Canceled\<close> or \<open>DeadlineExceeded\<close>, and leaves the channel alone. When the token is not
  done, it is \<open>Receive\<close>: it returns the record of the slot, and blocks while there is
  none. When the token is done and the slot is filled, it is either of the two, as the
  draw of the \<^verbatim>\<open>select\<close> falls.
\<close>

theorem ReceiveWatch_select:
  "(ctx_Done c \<longrightarrow> chan_recv (rdvData_zero zero) rv = RecvBlocked \<longrightarrow>
      ReceiveWatch pick zero rv c = Return (zero, ctx_Err c) rv
      \<and> (ctx_Err c = Some Canceled \<or> ctx_Err c = Some DeadlineExceeded))
   \<and> (\<not> ctx_Done c \<longrightarrow> ReceiveWatch pick zero rv c = Receive zero rv)
   \<and> (ctx_Done c \<longrightarrow> chan_recv (rdvData_zero zero) rv \<noteq> RecvBlocked \<longrightarrow>
      ReceiveWatch ChanCase zero rv c = Receive zero rv
      \<and> ReceiveWatch DoneCase zero rv c = Return (zero, ctx_Err c) rv)"
  using ctx_Err_done[of c]
  by (auto simp: ReceiveWatch_def Receive_def rdvData_zero_def ctx_Done_def Let_def
      split: received.splits)

text \<open>
  A token past its deadline on an empty slot, and a filled slot under a token that is not
  done.
\<close>

theorem ReceiveWatch_select_witness:
  "ReceiveWatch ChanCase (0::int) (make_chan 1) (Some Deadline)
     = Return (0, Some DeadlineExceeded) (make_chan 1)
   \<and> ReceiveWatch DoneCase (0::int) ((make_chan 1)\<lparr>buf := [\<lparr>dvalue = 1, derr = None, chanOpen = True\<rparr>]\<rparr>) None
     = Return (1, None) (make_chan 1)"
proof -
  have a: "ctx_Done (Some Deadline)" by (simp add: ctx_Done_def)
  have b: "chan_recv (rdvData_zero (0::int)) (make_chan 1) = RecvBlocked"
    by (simp add: chan_recv_def make_chan_def)
  have c: "\<not> ctx_Done None" by (simp add: ctx_Done_def)
  have "ReceiveWatch ChanCase (0::int) (make_chan 1) (Some Deadline)
      = Return (0, ctx_Err (Some Deadline)) (make_chan 1)"
    using ReceiveWatch_select[THEN conjunct1, rule_format, OF a b] by simp
  moreover have "ReceiveWatch DoneCase (0::int)
      ((make_chan 1)\<lparr>buf := [\<lparr>dvalue = 1, derr = None, chanOpen = True\<rparr>]\<rparr>) None
      = Receive 0 ((make_chan 1)\<lparr>buf := [\<lparr>dvalue = 1, derr = None, chanOpen = True\<rparr>]\<rparr>)"
    using ReceiveWatch_select[THEN conjunct2, THEN conjunct1, rule_format, OF c] by simp
  ultimately show ?thesis
    by (simp add: ctx_Err_def Receive_def chan_recv_def make_chan_def)
qed

text \<open>
  Claim C7. Take a handle from \<open>Go\<close> or \<open>GoEg\<close> in any state it can reach, let a
  \<open>Receive\<close> (or a \<open>ReceiveWatch\<close> that takes from the channel) return the record, and
  let anything happen afterwards. Then \<open>Receive\<close> panics with the message of the closed
  rendezvous channel; it can be blocked only while the goroutine has not yet run its
  deferred close, which the goroutine is free to do, and it panics right after. It never
  returns a record. \<open>ReceiveWatch\<close> panics in the same way unless it completes on the token
  (it then returns the error of the token and leaves the channel alone).
\<close>

theorem second_receive_panics:
  assumes reach: "exec (handle_step l zero f) evs1 (launch l c0 grp0) = Some s1"
    and first: "Receive zero (gch (h_g s1)) = Return r c
                \<or> ReceiveWatch pk zero (gch (h_g s1)) (h_ctx s1) = Return r c \<and> c \<noteq> gch (h_g s1)"
    and later: "exec (handle_step l zero f) evs2 (s1\<lparr>h_g := (h_g s1)\<lparr>gch := c\<rparr>\<rparr>) = Some s2"
  shows "(Receive zero (gch (h_g s2)) = Panic closed_rendezvous
          \<or> Receive zero (gch (h_g s2)) = Blocked
            \<and> (\<exists>s3. handle_step l zero f HStep s2 = Some s3
                   \<and> Receive zero (gch (h_g s3)) = Panic closed_rendezvous))
       \<and> (\<forall>pick.
            ReceiveWatch pick zero (gch (h_g s2)) (h_ctx s2) = Panic closed_rendezvous
          \<or> ReceiveWatch pick zero (gch (h_g s2)) (h_ctx s2)
              = Return (zero, ctx_Err (h_ctx s2)) (gch (h_g s2)) \<and> ctx_Done (h_ctx s2)
          \<or> ReceiveWatch pick zero (gch (h_g s2)) (h_ctx s2) = Blocked
            \<and> (\<exists>s3. handle_step l zero f HStep s2 = Some s3
                   \<and> ReceiveWatch pick zero (gch (h_g s3)) (h_ctx s3) = Panic closed_rendezvous))"
proof -
  have inv1: "hinv False (h_g s1)" using reach by (rule handle_reach_hinv)
  from first have "hinv True ((h_g s1)\<lparr>gch := c\<rparr>)"
  proof
    assume "Receive zero (gch (h_g s1)) = Return r c"
    then show ?thesis using inv1 by (rule Receive_got)
  next
    assume w: "ReceiveWatch pk zero (gch (h_g s1)) (h_ctx s1) = Return r c \<and> c \<noteq> gch (h_g s1)"
    show ?thesis by (rule ReceiveWatch_got[OF conjunct1[OF w] conjunct2[OF w] inv1])
  qed
  then have "hinv True (h_g (s1\<lparr>h_g := (h_g s1)\<lparr>gch := c\<rparr>\<rparr>))" by simp
  with later have got: "hinv True (h_g s2)" by (rule handle_exec_hinv)
  show ?thesis
  proof (cases "closed (gch (h_g s2))")
    case True
    show ?thesis using got_closed(1,2)[OF got True] by blast
  next
    case False
    obtain e where pc: "gpc (h_g s2) = GClose e" using got_open(3)[OF got False] by blast
    obtain s3 where step: "handle_step l zero f HStep s2 = Some s3"
      and cl: "closed (gch (h_g s3))" and same: "h_ctx s3 = h_ctx s2"
      using close_step[OF pc False] by blast
    have got3: "hinv True (h_g s3)" using step got by (rule handle_step_hinv)
    have r3: "Receive zero (gch (h_g s3)) = Panic closed_rendezvous"
      using got3 cl by (rule got_closed(1))
    have w3: "\<not> ctx_Done (h_ctx s2) \<Longrightarrow>
        ReceiveWatch pick zero (gch (h_g s3)) (h_ctx s3) = Panic closed_rendezvous" for pick
      using got_closed(3)[OF got3 cl] same by simp
    show ?thesis
      using got_open(1,2)[OF got False] step r3 w3 by blast
  qed
qed

text \<open>
  The goroutine of f1 sends its record, the holder receives it, the goroutine closes the
  channel: the second \<open>Receive\<close> and the second \<open>ReceiveWatch\<close> panic.
\<close>

theorem second_receive_panics_witness:
  "map_option (\<lambda>s. Receive 0 (gch (h_g s)))
     (exec (handle_step ByGo 0 f1) [HStep, HStep, HReceive, HStep] (launch ByGo None (WithContext None)))
   = Some (Panic closed_rendezvous)
   \<and> map_option (\<lambda>s. ReceiveWatch ChanCase 0 (gch (h_g s)) (h_ctx s))
     (exec (handle_step ByGo 0 f1) [HStep, HStep, HReceive, HStep] (launch ByGo None (WithContext None)))
   = Some (Panic closed_rendezvous)"
proof -
  let ?step = "handle_step ByGo 0 f1"
  let ?init = "launch ByGo None (WithContext None) :: int handle"
  obtain s1 c where run1: "exec ?step [HStep, HStep] ?init = Some s1"
    and rcv: "Receive 0 (gch (h_g s1)) = Return (1, None) c"
    by (simp add: model_defs handle_defs)
  obtain s2 where run2: "exec ?step [HStep] (s1\<lparr>h_g := (h_g s1)\<lparr>gch := c\<rparr>\<rparr>) = Some s2"
    and cl: "closed (gch (h_g s2))" and ct: "h_ctx s2 = None"
    using run1 rcv by (auto simp: model_defs handle_defs)
  have all: "exec ?step ([HStep, HStep] @ [HReceive] @ [HStep]) ?init = Some s2"
    using rcv run2 by (simp only: exec_append run1 option.case) (simp add: handle_step_def)
  note facts = second_receive_panics[OF run1 disjI1[OF rcv] run2]
  have a: "Receive 0 (gch (h_g s2)) = Panic closed_rendezvous"
    using facts[THEN conjunct1] cl by (auto simp: Receive_def chan_recv_def split: list.splits)
  have b: "ReceiveWatch ChanCase 0 (gch (h_g s2)) (h_ctx s2) = Panic closed_rendezvous"
    using facts[THEN conjunct2, THEN spec[of _ ChanCase]] cl ct
    by (auto simp: ReceiveWatch_def ctx_Done_def chan_recv_def Let_def split: list.splits)
  from all a b show ?thesis by simp
qed




section \<open>Properties of the collect-all combinators\<close>

lemma first_error_all_None:
  "(\<And>i. i < length es \<Longrightarrow> es ! i = None) \<Longrightarrow> first_error es = None"
proof (induction es)
  case Nil
  then show ?case by simp
next
  case (Cons e es)
  have "e = None" using Cons.prems[of 0] by simp
  moreover have "first_error es = None"
  proof (rule Cons.IH)
    fix i assume "i < length es"
    then show "es ! i = None" using Cons.prems[of "Suc i"] by simp
  qed
  ultimately show ?case by simp
qed

lemma first_error_at:
  "i < length es \<Longrightarrow> es ! i \<noteq> None \<Longrightarrow> (\<And>j. j < i \<Longrightarrow> es ! j = None) \<Longrightarrow> first_error es = es ! i"
proof (induction es arbitrary: i)
  case Nil
  then show ?case by simp
next
  case (Cons e es)
  show ?case
  proof (cases i)
    case 0
    then show ?thesis using Cons.prems(2) by simp
  next
    case (Suc k)
    have e: "e = None" using Cons.prems(3)[of 0] Suc by simp
    have "first_error es = es ! k"
    proof (rule Cons.IH)
      show "k < length es" using Cons.prems(1) Suc by simp
      show "es ! k \<noteq> None" using Cons.prems(2) Suc by simp
      fix j assume "j < k"
      then show "es ! j = None" using Cons.prems(3)[of "Suc j"] Suc by simp
    qed
    then show ?thesis using e Suc by simp
  qed
qed

lemma RunSlice_step_ok:
  "RunSlice_step zero funcs ev s = Some s' \<Longrightarrow> rs_ok n s \<Longrightarrow> rs_ok n s'"
  by (auto simp: RunSlice_step_def rs_ok_def
      split: event.splits if_splits option.splits wpc.splits call.splits)

lemma RunSlice_reach_ok:
  assumes "exec (RunSlice_step zero funcs) evs (RunSlice_init zero c funcs) = Some s"
  shows "rs_ok (length funcs) s"
proof -
  have "rs_ok (length funcs) (RunSlice_init zero c funcs)"
    by (simp add: rs_ok_def RunSlice_init_def)
  with assms show ?thesis
    by (rule exec_invariant) (rule RunSlice_step_ok)
qed

lemma RunSlice_returned:
  assumes "exec (RunSlice_step zero funcs) evs (RunSlice_init zero c funcs) = Some s"
    and "rs_waiter s = WReturned (results, err)"
  shows "err = first_error (map Error results) \<and> length results = length funcs"
  using RunSlice_reach_ok[OF assms(1)] assms(2) by (simp add: rs_ok_def)

lemma Run2_step_ok:
  "Run2_step zero1 zero2 g1 g2 ev s = Some s' \<Longrightarrow> r2_ok s \<Longrightarrow> r2_ok s'"
  by (auto simp: Run2_step_def r2_ok_def
      split: event.splits if_splits option.splits wpc.splits call.splits)

lemma Run2_returned:
  assumes "exec (Run2_step zero1 zero2 g1 g2) evs (Run2_init zero1 zero2 c) = Some s"
    and "r2_waiter s = WReturned (results, err)"
  shows "err = first_error [Error (X1 results), Error (X2 results)]"
proof -
  have "r2_ok (Run2_init zero1 zero2 c)" by (simp add: r2_ok_def Run2_init_def)
  with assms(1) have "r2_ok s"
    by (rule exec_invariant) (rule Run2_step_ok)
  with assms(2) show ?thesis by (simp add: r2_ok_def)
qed

text \<open>
  Claim C2. Whatever the order of the events of an execution (so whichever task finishes
  first), when \<open>RunSlice\<close> returns \<open>(results, err)\<close>, \<open>err\<close> is the error of the entry of
  lowest index whose error is not nil, and nil when no entry has an error; and the same for
  the two entries of the tuple \<open>Run2\<close> returns.
\<close>

theorem summary_error_first_by_position:
  "(\<forall>evs s results err.
      exec (RunSlice_step zero funcs) evs (RunSlice_init zero c funcs) = Some s \<longrightarrow>
      rs_waiter s = WReturned (results, err) \<longrightarrow>
        (\<forall>i < length results. Error (results ! i) \<noteq> None \<longrightarrow>
           (\<forall>j < i. Error (results ! j) = None) \<longrightarrow> err = Error (results ! i))
        \<and> ((\<forall>i < length results. Error (results ! i) = None) \<longrightarrow> err = None))
   \<and> (\<forall>evs s results err.
      exec (Run2_step zero1 zero2 g1 g2) evs (Run2_init zero1 zero2 c2) = Some s \<longrightarrow>
      r2_waiter s = WReturned (results, err) \<longrightarrow>
        (Error (X1 results) \<noteq> None \<longrightarrow> err = Error (X1 results))
        \<and> (Error (X1 results) = None \<longrightarrow> Error (X2 results) \<noteq> None \<longrightarrow> err = Error (X2 results))
        \<and> (Error (X1 results) = None \<longrightarrow> Error (X2 results) = None \<longrightarrow> err = None))"
proof (intro conjI allI impI)
  fix evs s results err i
  assume run: "exec (RunSlice_step zero funcs) evs (RunSlice_init zero c funcs) = Some s"
    and ret: "rs_waiter s = WReturned (results, err)"
    and i: "i < length results" "Error (results ! i) \<noteq> None"
    and before: "\<forall>j < i. Error (results ! j) = None"
  have "err = first_error (map Error results)" using RunSlice_returned[OF run ret] by simp
  also have "\<dots> = map Error results ! i"
    by (rule first_error_at) (use i before in simp_all)
  finally show "err = Error (results ! i)" using i by simp
next
  fix evs s results err
  assume run: "exec (RunSlice_step zero funcs) evs (RunSlice_init zero c funcs) = Some s"
    and ret: "rs_waiter s = WReturned (results, err)"
    and none: "\<forall>i < length results. Error (results ! i) = None"
  have "err = first_error (map Error results)" using RunSlice_returned[OF run ret] by simp
  also have "\<dots> = None"
    by (rule first_error_all_None) (use none in simp)
  finally show "err = None" .
next
  fix evs s results err
  assume run: "exec (Run2_step zero1 zero2 g1 g2) evs (Run2_init zero1 zero2 c2) = Some s"
    and ret: "r2_waiter s = WReturned (results, err)"
  have e: "err = first_error [Error (X1 results), Error (X2 results)]"
    using run ret by (rule Run2_returned)
  { assume "Error (X1 results) \<noteq> None"
    then show "err = Error (X1 results)" using e by simp }
  { assume "Error (X1 results) = None" "Error (X2 results) \<noteq> None"
    then show "err = Error (X2 results)" using e by simp }
  { assume "Error (X1 results) = None" "Error (X2 results) = None"
    then show "err = None" using e by simp }
qed

text \<open>
  The scenario of the examples: f3 fails first, then f2 panics, then f1 returns, and the
  summary error is the one of f2, the failing task of lowest index; for \<open>Run2\<close>, f3 fails
  before f2 panics and the summary error is the one of f2, the first argument.
\<close>

theorem summary_error_first_by_position_witness:
  "map_option rs_waiter (exec (RunSlice_step 0 [f1, f2, f3])
      [Task 2, Task 2, Task 1, Task 1, Task 0, Task 0,
       Waiter ChanCase, Waiter ChanCase, Waiter ChanCase, Waiter ChanCase]
      (RunSlice_init 0 None [f1, f2, f3]))
    = Some (WReturned
        ([\<lparr>Value = 1, Error = None\<rparr>,
          \<lparr>Value = 0, Error = Some (ErrorOf (IValue ''f2 panicked''))\<rparr>,
          \<lparr>Value = 0, Error = Some (ErrorString ''f3 errored-out'')\<rparr>],
         Some (ErrorOf (IValue ''f2 panicked''))))
   \<and> map_option r2_waiter (exec (Run2_step 0 0 f2 f3)
      [Task 1, Task 1, Task 0, Task 0, Waiter ChanCase, Waiter ChanCase, Waiter ChanCase]
      (Run2_init 0 0 None))
    = Some (WReturned
        (\<lparr>X1 = \<lparr>Value = 0, Error = Some (ErrorOf (IValue ''f2 panicked''))\<rparr>,
          X2 = \<lparr>Value = 0, Error = Some (ErrorString ''f3 errored-out'')\<rparr>\<rparr>,
         Some (ErrorOf (IValue ''f2 panicked''))))"
proof -
  let ?evs = "[Task 2, Task 2, Task 1, Task 1, Task 0, Task 0,
       Waiter ChanCase, Waiter ChanCase, Waiter ChanCase, Waiter ChanCase]"
  let ?res = "[\<lparr>Value = 1, Error = None\<rparr>,
          \<lparr>Value = 0, Error = Some (ErrorOf (IValue ''f2 panicked''))\<rparr>,
          \<lparr>Value = 0::int, Error = Some (ErrorString ''f3 errored-out'')\<rparr>]"
  obtain s err where run: "exec (RunSlice_step 0 [f1, f2, f3]) ?evs (RunSlice_init 0 None [f1, f2, f3]) = Some s"
    and ret: "rs_waiter s = WReturned (?res, err)"
    by (simp add: model_defs)
  have "err = Error (?res ! 1)"
    using summary_error_first_by_position[THEN conjunct1, rule_format, OF run ret, THEN conjunct1,
        rule_format, of 1]
    by simp
  then have a: "map_option rs_waiter (exec (RunSlice_step 0 [f1, f2, f3]) ?evs
      (RunSlice_init 0 None [f1, f2, f3])) = Some (WReturned (?res, Some (ErrorOf (IValue ''f2 panicked''))))"
    using run ret by simp
  let ?evs2 = "[Task 1, Task 1, Task 0, Task 0, Waiter ChanCase, Waiter ChanCase, Waiter ChanCase]"
  let ?res2 = "\<lparr>X1 = \<lparr>Value = 0::int, Error = Some (ErrorOf (IValue ''f2 panicked''))\<rparr>,
          X2 = \<lparr>Value = 0::int, Error = Some (ErrorString ''f3 errored-out'')\<rparr>\<rparr>"
  obtain s2 err2 where run2: "exec (Run2_step 0 0 f2 f3) ?evs2 (Run2_init 0 0 None) = Some s2"
    and ret2: "r2_waiter s2 = WReturned (?res2, err2)"
    by (simp add: model_defs)
  have "err2 = Error (X1 ?res2)"
    using summary_error_first_by_position[THEN conjunct2, rule_format, OF run2 ret2, THEN conjunct1]
    by simp
  then have b: "map_option r2_waiter (exec (Run2_step 0 0 f2 f3) ?evs2 (Run2_init 0 0 None))
      = Some (WReturned (?res2, Some (ErrorOf (IValue ''f2 panicked''))))"
    using run2 ret2 by simp
  from a b show ?thesis by simp
qed

lemma RunSlice_step_kept:
  "RunSlice_step zero funcs ev s = Some s' \<Longrightarrow> rs_ok n s \<Longrightarrow> rs_kept i v s \<Longrightarrow> rs_kept i v s'"
  by (auto simp: RunSlice_step_def rs_kept_def rs_ok_def
      split: event.splits if_splits option.splits wpc.splits call.splits)

lemma RunSlice_exec_kept:
  "exec (RunSlice_step zero funcs) evs s = Some s' \<Longrightarrow> rs_ok n s \<Longrightarrow> rs_kept i v s
     \<Longrightarrow> rs_ok n s' \<and> rs_kept i v s'"
proof (induction evs arbitrary: s)
  case Nil
  then show ?case by simp
next
  case (Cons e evs)
  from Cons.prems(1) obtain m where m: "RunSlice_step zero funcs e s = Some m"
    and rest: "exec (RunSlice_step zero funcs) evs m = Some s'"
    by (auto split: option.splits)
  have "rs_ok n m" using m Cons.prems(2) by (rule RunSlice_step_ok)
  moreover have "rs_kept i v m" using m Cons.prems(2,3) by (rule RunSlice_step_kept)
  ultimately show ?case using Cons.IH[OF rest] by simp
qed

lemma RunSlice_select_token:
  assumes "rs_waiter s = WRecv i" and "i < length (rs_rvs s)" and "i < length (rs_results s)"
    and "chan_recv (rdvData_zero zero) (gch (rs_rvs s ! i)) = RecvBlocked"
    and "RunSlice_step zero funcs (Waiter pick) s = Some s'"
  shows "rs_ctx s \<noteq> None \<and> rs_kept i \<lparr>Value = zero, Error = ctx_Err (rs_ctx s)\<rparr> s'"
  using assms
  by (auto simp: RunSlice_step_def ReceiveWatch_def rs_kept_def ctx_Done_def rdvData_zero_def
      split: if_splits)

lemma Go_step_hopen:
  "Go_step zero f g = Some g' \<Longrightarrow> hopen g \<Longrightarrow> hopen g'"
proof (cases rule: call_fs_cases[of zero f g])
  case (sent d)
  show "Go_step zero f g = Some g' \<Longrightarrow> hopen g \<Longrightarrow> hopen g'"
    by (auto simp: Go_step_def sent hopen_def send_data_def chan_send_def chan_close_def
        split: gpc.splits sent.splits option.splits if_splits)
next
  case goexit
  show "Go_step zero f g = Some g' \<Longrightarrow> hopen g \<Longrightarrow> hopen g'"
    by (auto simp: Go_step_def goexit hopen_def send_data_def chan_send_def chan_close_def
        split: gpc.splits sent.splits option.splits if_splits)
qed

lemma ReceiveWatch_hopen:
  "ReceiveWatch pick zero (gch g) ct = Return r c \<Longrightarrow> hopen g \<Longrightarrow> hopen (g\<lparr>gch := c\<rparr>)"
  by (auto simp: ReceiveWatch_def chan_recv_def hopen_def Let_def
      split: list.splits if_splits gpc.splits)

lemma RunSlice_step_live:
  assumes "RunSlice_step zero funcs ev s = Some s'" and "rs_live s"
  shows "rs_live s'"
proof (cases ev)
  case (Fire r)
  then show ?thesis using assms by (auto simp: RunSlice_step_def rs_live_def split: if_splits)
next
  case (Task i)
  with assms(1) obtain g where i: "i < length (rs_rvs s)"
    and g: "Go_step zero (CtxApply (rs_ctx s) (funcs ! i)) (rs_rvs s ! i) = Some g"
    and s': "s' = s\<lparr>rs_rvs := (rs_rvs s)[i := g]\<rparr>"
    by (auto simp: RunSlice_step_def split: if_splits option.splits)
  have h: "hinv False (rs_rvs s ! i)" and o: "hopen (rs_rvs s ! i)"
    using assms(2) i by (simp_all add: rs_live_def)
  have "hinv False g" using g h by (rule Go_step_hinv)
  moreover have "hopen g" using g o by (rule Go_step_hopen)
  ultimately show ?thesis
    using assms(2) i unfolding s' rs_live_def by (auto simp: nth_list_update)
next
  case (Member i pick)
  then show ?thesis using assms by (simp add: RunSlice_step_def)
next
  case (Waiter pick)
  show ?thesis
  proof (cases "rs_waiter s")
    case (WRecv i)
    show ?thesis
    proof (cases "i < length (rs_rvs s)")
      case True
      have h: "hinv False (rs_rvs s ! i)" and o: "hopen (rs_rvs s ! i)"
        using assms(2) True by (simp_all add: rs_live_def)
      show ?thesis
      proof (cases "ReceiveWatch pick zero (gch (rs_rvs s ! i)) (rs_ctx s)")
        case Blocked
        then show ?thesis using assms(1) Waiter WRecv True by (simp add: RunSlice_step_def)
      next
        case (Panic p)
        then have "s' = s\<lparr>rs_waiter := WPanicked p\<rparr>"
          using assms(1) Waiter WRecv True by (simp add: RunSlice_step_def)
        then show ?thesis using assms(2) by (simp add: rs_live_def)
      next
        case (Return r c)
        then have s': "s' = s\<lparr>rs_rvs := (rs_rvs s)[i := (rs_rvs s ! i)\<lparr>gch := c\<rparr>],
                              rs_results := (rs_results s)[i := \<lparr>Value = fst r, Error = snd r\<rparr>],
                              rs_waiter := WRecv (i + 1)\<rparr>"
          using assms(1) Waiter WRecv True by (simp add: RunSlice_step_def)
        have "hinv False ((rs_rvs s ! i)\<lparr>gch := c\<rparr>)" using Return h by (rule ReceiveWatch_hinv)
        moreover have "hopen ((rs_rvs s ! i)\<lparr>gch := c\<rparr>)" using Return o by (rule ReceiveWatch_hopen)
        ultimately show ?thesis
          using assms(2) True unfolding s' rs_live_def by (auto simp: nth_list_update)
      qed
    next
      case False
      then show ?thesis using assms Waiter WRecv
        by (auto simp: RunSlice_step_def rs_live_def)
    qed
  qed (use assms Waiter in \<open>auto simp: RunSlice_step_def\<close>)
qed

lemma RunSlice_reach_live:
  assumes "exec (RunSlice_step zero funcs) evs (RunSlice_init zero c funcs) = Some s"
  shows "rs_live s"
proof -
  have "rs_live (RunSlice_init zero c funcs)"
    by (simp add: rs_live_def RunSlice_init_def hinv_def hopen_def Go_def make_chan_def)
  with assms show ?thesis
    by (rule exec_invariant) (rule RunSlice_step_live)
qed

lemma RunSlice_progress:
  assumes "rs_live s" and "rs_waiter s = WRecv i" and "i < length (rs_rvs s)"
    and "buf (gch (rs_rvs s ! i)) \<noteq> [] \<or> rs_ctx s \<noteq> None \<and> \<not> closed (gch (rs_rvs s ! i))"
  shows "\<exists>s'. RunSlice_step zero funcs (Waiter pick) s = Some s' \<and> rs_waiter s' = WRecv (i + 1)"
proof -
  have "hopen (rs_rvs s ! i)" using assms(1,3) by (simp add: rs_live_def)
  then have "\<exists>r c. ReceiveWatch pick zero (gch (rs_rvs s ! i)) (rs_ctx s) = Return r c"
    using assms(4)
    by (auto simp: ReceiveWatch_def chan_recv_def hopen_def ctx_Done_def Let_def split: list.splits)
  then show ?thesis using assms(2,3) by (auto simp: RunSlice_step_def)
qed

text \<open>
  A task that ends its goroutine with Goexit: the goroutine closes its channel with nothing
  sent, and the \<open>ReceiveWatch\<close> of the caller, taking from the channel, panics.
\<close>

lemma RunSlice_Goexit_panics:
  "map_option rs_waiter (exec (RunSlice_step (0::int) [\<lambda>c. Goexits])
      [Task 0, Task 0, Waiter ChanCase] (RunSlice_init 0 None [\<lambda>c. Goexits]))
    = Some (WPanicked closed_rendezvous)"
  by (simp add: model_defs)

text \<open>
  Claim C5, as stated, fails: the token fires while the record of the task is not ready
  (the goroutine has not yet called the task), the record arrives before the caller runs
  the \<^verbatim>\<open>select\<close> of that task, the \<^verbatim>\<open>select\<close> finds both cases ready and
  draws the channel, and the entry is the record of the task, not the error of the token.
\<close>

theorem RunSlice_token_first_counterexample:
  "map_option rs_ctx (exec (RunSlice_step 0 [f1]) [Fire Cancel] (RunSlice_init 0 None [f1]))
     = Some (Some Cancel)
   \<and> map_option rs_rvs (exec (RunSlice_step 0 [f1]) [Fire Cancel] (RunSlice_init 0 None [f1]))
     = Some [\<lparr>gpc = GCall, gch = \<lparr>buf = [], cap = 1, closed = False\<rparr>\<rparr>]
   \<and> map_option rs_waiter (exec (RunSlice_step 0 [f1])
        [Fire Cancel, Task 0, Task 0, Waiter ChanCase, Waiter ChanCase] (RunSlice_init 0 None [f1]))
     = Some (WReturned ([\<lparr>Value = 1, Error = None\<rparr>], None))
   \<and> \<lparr>Value = 1, Error = None\<rparr> \<noteq> \<lparr>Value = 0 :: int, Error = Some Canceled\<rparr>"
  by (simp add: model_defs)

text \<open>
  Claim C5, amended. \<open>RunSlice\<close> returns one entry for each input function, and the entry
  of a task is the zero value with the error of the token (\<open>Canceled\<close> or
  \<open>DeadlineExceeded\<close>) whenever the record of the task is not ready at the moment the caller
  passes the \<open>ReceiveWatch\<close> of that task; the token has then fired. (When the record
  arrives between the firing of the token and that moment, the entry is the record or the
  error of the token, as the \<^verbatim>\<open>select\<close> draws.) The results have this length from the
  start; a receive of the caller completes, and the caller moves on to the next task, as
  soon as the record is in the channel, or the token has fired on a channel that is not
  closed; and past the last task the caller returns the results.
\<close>

theorem RunSlice_results_populated:
  "(\<forall>evs s results err.
      exec (RunSlice_step zero funcs) evs (RunSlice_init zero c funcs) = Some s \<longrightarrow>
      rs_waiter s = WReturned (results, err) \<longrightarrow> length results = length funcs)
   \<and> (\<forall>evs1 s1 i pick s2 evs2 s results err.
      exec (RunSlice_step zero funcs) evs1 (RunSlice_init zero c funcs) = Some s1 \<longrightarrow>
      rs_waiter s1 = WRecv i \<longrightarrow> i < length funcs \<longrightarrow>
      chan_recv (rdvData_zero zero) (gch (rs_rvs s1 ! i)) = RecvBlocked \<longrightarrow>
      RunSlice_step zero funcs (Waiter pick) s1 = Some s2 \<longrightarrow>
      exec (RunSlice_step zero funcs) evs2 s2 = Some s \<longrightarrow>
      rs_waiter s = WReturned (results, err) \<longrightarrow>
        rs_ctx s1 \<noteq> None
        \<and> results ! i = \<lparr>Value = zero, Error = ctx_Err (rs_ctx s1)\<rparr>
        \<and> (ctx_Err (rs_ctx s1) = Some Canceled \<or> ctx_Err (rs_ctx s1) = Some DeadlineExceeded))
   \<and> (\<forall>evs s i pick.
      exec (RunSlice_step zero funcs) evs (RunSlice_init zero c funcs) = Some s \<longrightarrow>
        length (rs_results s) = length funcs
        \<and> (rs_waiter s = WRecv i \<longrightarrow> i < length funcs \<longrightarrow>
             (buf (gch (rs_rvs s ! i)) \<noteq> []
                \<or> rs_ctx s \<noteq> None \<and> \<not> closed (gch (rs_rvs s ! i))) \<longrightarrow>
             (\<exists>s'. RunSlice_step zero funcs (Waiter pick) s = Some s'
                  \<and> rs_waiter s' = WRecv (i + 1)))
        \<and> (rs_waiter s = WRecv i \<longrightarrow> \<not> i < length funcs \<longrightarrow>
             RunSlice_step zero funcs (Waiter pick) s
               = Some (s\<lparr>rs_waiter :=
                   WReturned (rs_results s, first_error (map Error (rs_results s)))\<rparr>)))"
proof (intro conjI allI impI)
  fix evs s results err
  assume run: "exec (RunSlice_step zero funcs) evs (RunSlice_init zero c funcs) = Some s"
    and ret: "rs_waiter s = WReturned (results, err)"
  show "length results = length funcs" using RunSlice_returned[OF run ret] by simp
next
  fix evs1 s1 i pick s2 evs2 s results err
  assume run1: "exec (RunSlice_step zero funcs) evs1 (RunSlice_init zero c funcs) = Some s1"
    and at: "rs_waiter s1 = WRecv i" and i: "i < length funcs"
    and empty: "chan_recv (rdvData_zero zero) (gch (rs_rvs s1 ! i)) = RecvBlocked"
    and sel: "RunSlice_step zero funcs (Waiter pick) s1 = Some s2"
    and run2: "exec (RunSlice_step zero funcs) evs2 s2 = Some s"
    and ret: "rs_waiter s = WReturned (results, err)"
  let ?v = "\<lparr>Value = zero, Error = ctx_Err (rs_ctx s1)\<rparr>"
  have ok1: "rs_ok (length funcs) s1" using run1 by (rule RunSlice_reach_ok)
  then have len: "i < length (rs_rvs s1)" "i < length (rs_results s1)"
    using i by (simp_all add: rs_ok_def)
  have fired: "rs_ctx s1 \<noteq> None" and kept2: "rs_kept i ?v s2"
    using RunSlice_select_token[OF at len empty sel] by simp_all
  have ok2: "rs_ok (length funcs) s2" using sel ok1 by (rule RunSlice_step_ok)
  have "rs_ok (length funcs) s \<and> rs_kept i ?v s"
    using run2 ok2 kept2 by (rule RunSlice_exec_kept)
  then have entry: "results ! i = ?v" using ret by (simp add: rs_ok_def rs_kept_def)
  show "rs_ctx s1 \<noteq> None" by (rule fired)
  show "results ! i = ?v" by (rule entry)
  show "ctx_Err (rs_ctx s1) = Some Canceled \<or> ctx_Err (rs_ctx s1) = Some DeadlineExceeded"
    using fired by (rule ctx_Err_done)
next
  fix evs s i pick
  assume run: "exec (RunSlice_step zero funcs) evs (RunSlice_init zero c funcs) = Some s"
  have live: "rs_live s" using run by (rule RunSlice_reach_live)
  have len: "length (rs_rvs s) = length funcs" "length (rs_results s) = length funcs"
    using RunSlice_reach_ok[OF run] by (simp_all add: rs_ok_def)
  show "length (rs_results s) = length funcs" by (rule len(2))
  { assume at: "rs_waiter s = WRecv i" and i: "i < length funcs"
      and ready: "buf (gch (rs_rvs s ! i)) \<noteq> []
                \<or> rs_ctx s \<noteq> None \<and> \<not> closed (gch (rs_rvs s ! i))"
    show "\<exists>s'. RunSlice_step zero funcs (Waiter pick) s = Some s' \<and> rs_waiter s' = WRecv (i + 1)"
      using RunSlice_progress[OF live at _ ready, of zero funcs pick] i len(1) by simp }
  { assume "rs_waiter s = WRecv i" "\<not> i < length funcs"
    then show "RunSlice_step zero funcs (Waiter pick) s
               = Some (s\<lparr>rs_waiter :=
                   WReturned (rs_results s, first_error (map Error (rs_results s)))\<rparr>)"
      using len(1) by (simp add: RunSlice_step_def) }
qed

text \<open>
  A deadline shorter than every task: the token fires before f1 and f4 have run, the caller
  passes both receives on the token, and both entries carry \<open>DeadlineExceeded\<close>.
\<close>

theorem RunSlice_results_populated_witness:
  "map_option rs_waiter (exec (RunSlice_step 0 [f1, f4])
      [Fire Deadline, Waiter ChanCase, Waiter ChanCase, Waiter ChanCase] (RunSlice_init 0 None [f1, f4]))
    = Some (WReturned
        ([\<lparr>Value = 0, Error = Some DeadlineExceeded\<rparr>, \<lparr>Value = 0, Error = Some DeadlineExceeded\<rparr>],
         Some DeadlineExceeded))"
proof -
  let ?step = "RunSlice_step 0 [f1, f4]"
  let ?init = "RunSlice_init (0::int) None [f1, f4]"
  obtain s1 where run1: "exec ?step [Fire Deadline] ?init = Some s1"
    and at: "rs_waiter s1 = WRecv 0" and c1: "rs_ctx s1 = Some Deadline"
    and empty: "chan_recv (rdvData_zero 0) (gch (rs_rvs s1 ! 0)) = RecvBlocked"
    by (simp add: model_defs)
  obtain s2 where sel: "?step (Waiter ChanCase) s1 = Some s2"
    using run1 by (auto simp: model_defs)
  obtain s r1 r2 err where run2: "exec ?step [Waiter ChanCase, Waiter ChanCase] s2 = Some s"
    and ret: "rs_waiter s = WReturned ([r1, r2], err)"
    and r2: "r2 = \<lparr>Value = 0, Error = Some DeadlineExceeded\<rparr>" and err: "err = Some DeadlineExceeded"
    using run1 sel by (auto simp: model_defs)
  have "[r1, r2] ! 0 = \<lparr>Value = 0, Error = ctx_Err (rs_ctx s1)\<rparr>"
    using RunSlice_results_populated[THEN conjunct2, THEN conjunct1, rule_format,
        OF run1 at _ empty sel run2 ret]
    by simp
  then have r1: "r1 = \<lparr>Value = 0, Error = Some DeadlineExceeded\<rparr>"
    using c1 by (simp add: ctx_Err_def)
  have sel': "exec ?step [Waiter ChanCase] s1 = Some s2" using sel by simp
  have "exec ?step ([Fire Deadline] @ [Waiter ChanCase] @ [Waiter ChanCase, Waiter ChanCase]) ?init = Some s"
    by (simp only: exec_append run1 sel' run2 option.case)
  then show ?thesis using ret r1 r2 err by simp
qed

section \<open>Properties of the fail-fast combinators\<close>

lemmas eg_defs =
  RunSliceEg_step_def RunSliceEg_init_def Run2Eg_step_def Run2Eg_init_def
  GoEg_def GoEg_rest_def member_step_def inner_step_def fire_derived_def
  WithContext_def eg_Go_def eg_done_def eg_Wait_def cancel_def

lemma eg_done_gerr: "gerr grp = Some e \<Longrightarrow> gerr (eg_done err grp) = Some e"
  by (simp add: eg_done_def)

lemma GoEg_rest_gerr:
  "GoEg_rest g grp = Some (g', grp') \<Longrightarrow> gerr grp = Some e \<Longrightarrow> gerr grp' = Some e"
  by (auto simp: GoEg_rest_def eg_done_gerr split: gpc.splits option.splits)

lemma member_step_gerr:
  "member_step pick zero g inner grp = Some (g', inner', grp') \<Longrightarrow> gerr grp = Some e
     \<Longrightarrow> gerr grp' = Some e"
  by (auto simp: member_step_def split: gpc.splits option.splits call.splits dest: GoEg_rest_gerr)

lemma RunSliceEg_step_ok:
  "RunSliceEg_step zero funcs ev s = Some s' \<Longrightarrow> se_ok s \<Longrightarrow> se_ok s'"
  by (auto simp: RunSliceEg_step_def se_ok_def fire_derived_def eg_Wait_def
      split: event.splits if_splits option.splits wpc.splits call.splits prod.splits
      dest: member_step_gerr)

lemma Run2Eg_step_ok:
  "Run2Eg_step zero1 zero2 g1 g2 ev s = Some s' \<Longrightarrow> e2_ok zero1 zero2 s \<Longrightarrow> e2_ok zero1 zero2 s'"
  by (auto simp: Run2Eg_step_def e2_ok_def fire_derived_def eg_Wait_def
      split: event.splits if_splits option.splits wpc.splits call.splits prod.splits
      dest: member_step_gerr)

lemma RunSliceEg_reach_ok:
  assumes "exec (RunSliceEg_step zero funcs) evs (RunSliceEg_init c funcs) = Some s"
  shows "se_ok s"
proof -
  have "se_ok (RunSliceEg_init c funcs)"
    by (simp add: se_ok_def RunSliceEg_init_def split: prod.splits)
  with assms show ?thesis
    by (rule exec_invariant) (rule RunSliceEg_step_ok)
qed

lemma Run2Eg_reach_ok:
  assumes "exec (Run2Eg_step zero1 zero2 g1 g2) evs (Run2Eg_init zero1 zero2 c) = Some s"
  shows "e2_ok zero1 zero2 s"
proof -
  have "e2_ok zero1 zero2 (Run2Eg_init zero1 zero2 c)"
    by (simp add: e2_ok_def Run2Eg_init_def split: prod.splits)
  with assms show ?thesis
    by (rule exec_invariant) (rule Run2Eg_step_ok)
qed

text \<open>
  Claim C3. When Wait hands the caller an error, the next state of the caller is the
  return of the nil slice (for \<open>Run2Eg\<close>, whose tuple type has no nil, of the tuple still at
  its zero values) with that error, and no handle has been read: the records of the members
  that completed stay in their channels. So every execution that returns an error returns
  it with no values, and the error is the first error of the group.
\<close>

theorem fail_fast_error_discards_values:
  "(\<forall>s e grp pick.
      se_waiter s = WWait \<longrightarrow> eg_Wait (se_eg s) = Some (Some e, grp) \<longrightarrow>
      RunSliceEg_step zero funcs (Waiter pick) s
        = Some (s\<lparr>se_eg := grp, se_waiter := WReturned (None, Some e)\<rparr>))
   \<and> (\<forall>evs s res e.
      exec (RunSliceEg_step zero funcs) evs (RunSliceEg_init c funcs) = Some s \<longrightarrow>
      se_waiter s = WReturned (res, Some e) \<longrightarrow> res = None \<and> gerr (se_eg s) = Some e)
   \<and> (\<forall>s e grp pick.
      e2_waiter s = WWait \<longrightarrow> eg_Wait (e2_eg s) = Some (Some e, grp) \<longrightarrow>
      Run2Eg_step zero1 zero2 g1 g2 (Waiter pick) s
        = Some (s\<lparr>e2_eg := grp, e2_waiter := WReturned (e2_results s, Some e)\<rparr>))
   \<and> (\<forall>evs s res e.
      exec (Run2Eg_step zero1 zero2 g1 g2) evs (Run2Eg_init zero1 zero2 c2) = Some s \<longrightarrow>
      e2_waiter s = WReturned (res, Some e) \<longrightarrow>
      res = \<lparr>X1 = zero1, X2 = zero2\<rparr> \<and> gerr (e2_eg s) = Some e)"
proof (intro conjI allI impI)
  fix s :: "'a RunSliceEg_state" and e grp pick
  assume "se_waiter s = WWait" "eg_Wait (se_eg s) = Some (Some e, grp)"
  then show "RunSliceEg_step zero funcs (Waiter pick) s
      = Some (s\<lparr>se_eg := grp, se_waiter := WReturned (None, Some e)\<rparr>)"
    by (simp add: RunSliceEg_step_def)
next
  fix s :: "('b, 'c) Run2Eg_state" and e grp pick
  assume "e2_waiter s = WWait" "eg_Wait (e2_eg s) = Some (Some e, grp)"
  then show "Run2Eg_step zero1 zero2 g1 g2 (Waiter pick) s
      = Some (s\<lparr>e2_eg := grp, e2_waiter := WReturned (e2_results s, Some e)\<rparr>)"
    by (simp add: Run2Eg_step_def)
next
  fix evs s res e
  assume run: "exec (RunSliceEg_step zero funcs) evs (RunSliceEg_init c funcs) = Some s"
    and ret: "se_waiter s = WReturned (res, Some e)"
  have "se_ok s" using run by (rule RunSliceEg_reach_ok)
  then have "res = None \<and> gerr (se_eg s) = Some e" using ret by (simp add: se_ok_def)
  then show "res = None" and "gerr (se_eg s) = Some e" by simp_all
next
  fix evs s res e
  assume run: "exec (Run2Eg_step zero1 zero2 g1 g2) evs (Run2Eg_init zero1 zero2 c2) = Some s"
    and ret: "e2_waiter s = WReturned (res, Some e)"
  have "e2_ok zero1 zero2 s" using run by (rule Run2Eg_reach_ok)
  then have "res = \<lparr>X1 = zero1, X2 = zero2\<rparr> \<and> gerr (e2_eg s) = Some e"
    using ret by (simp add: e2_ok_def)
  then show "res = \<lparr>X1 = zero1, X2 = zero2\<rparr>" and "gerr (e2_eg s) = Some e" by simp_all
qed

text \<open>
  The scenario of the examples: f1 completes with the value 1, f2 panics, and the member
  of f3 leaves on the cancelled context of the group before f3 is through. Wait returns the
  error of f2, and the value of f1 is not returned. For \<open>Run2Eg\<close>: f1 completes, f2 panics.
\<close>

theorem fail_fast_error_discards_values_witness:
  "map_option se_waiter (exec (RunSliceEg_step 0 [f1, f2, f3])
      [Member 0 ChanCase, Member 1 ChanCase, Member 2 ChanCase,
       Task 0, Task 0, Task 0,
       Member 0 ChanCase, Member 0 ChanCase, Member 0 ChanCase, Member 0 ChanCase,
       Task 1, Task 1, Task 1,
       Member 1 ChanCase, Member 1 ChanCase, Member 1 ChanCase, Member 1 ChanCase,
       Member 2 DoneCase, Member 2 ChanCase, Member 2 ChanCase, Member 2 ChanCase,
       Waiter ChanCase]
      (RunSliceEg_init None [f1, f2, f3]))
    = Some (WReturned (None, Some (ErrorOf (IValue ''f2 panicked''))))
   \<and> map_option e2_waiter (exec (Run2Eg_step 0 0 f1 f2)
      [Member 0 ChanCase, Member 1 ChanCase,
       Task 0, Task 0, Task 0,
       Member 0 ChanCase, Member 0 ChanCase, Member 0 ChanCase, Member 0 ChanCase,
       Task 1, Task 1, Task 1,
       Member 1 ChanCase, Member 1 ChanCase, Member 1 ChanCase, Member 1 ChanCase,
       Waiter ChanCase]
      (Run2Eg_init 0 0 None))
    = Some (WReturned (\<lparr>X1 = 0, X2 = 0\<rparr>, Some (ErrorOf (IValue ''f2 panicked''))))"
proof -
  let ?evs = "[Member 0 ChanCase, Member 1 ChanCase, Member 2 ChanCase,
       Task 0, Task 0, Task 0,
       Member 0 ChanCase, Member 0 ChanCase, Member 0 ChanCase, Member 0 ChanCase,
       Task 1, Task 1, Task 1,
       Member 1 ChanCase, Member 1 ChanCase, Member 1 ChanCase, Member 1 ChanCase,
       Member 2 DoneCase, Member 2 ChanCase, Member 2 ChanCase, Member 2 ChanCase,
       Waiter ChanCase]"
  let ?e = "ErrorOf (IValue ''f2 panicked'')"
  obtain s res where run: "exec (RunSliceEg_step 0 [f1, f2, f3]) ?evs (RunSliceEg_init None [f1, f2, f3]) = Some s"
    and ret: "se_waiter s = WReturned (res, Some ?e)"
    by (simp add: model_defs eg_defs)
  have "res = None"
    using fail_fast_error_discards_values[THEN conjunct2, THEN conjunct1, rule_format, OF run ret]
    by simp
  then have a: "map_option se_waiter (exec (RunSliceEg_step 0 [f1, f2, f3]) ?evs
      (RunSliceEg_init None [f1, f2, f3])) = Some (WReturned (None, Some ?e))"
    using run ret by simp
  let ?evs2 = "[Member 0 ChanCase, Member 1 ChanCase,
       Task 0, Task 0, Task 0,
       Member 0 ChanCase, Member 0 ChanCase, Member 0 ChanCase, Member 0 ChanCase,
       Task 1, Task 1, Task 1,
       Member 1 ChanCase, Member 1 ChanCase, Member 1 ChanCase, Member 1 ChanCase,
       Waiter ChanCase]"
  obtain s2 res2 where run2: "exec (Run2Eg_step 0 0 f1 f2) ?evs2 (Run2Eg_init 0 0 None) = Some s2"
    and ret2: "e2_waiter s2 = WReturned (res2, Some ?e)"
    by (simp add: model_defs eg_defs)
  have "res2 = \<lparr>X1 = 0, X2 = 0\<rparr>"
    using fail_fast_error_discards_values[THEN conjunct2, THEN conjunct2, THEN conjunct2,
        rule_format, OF run2 ret2]
    by simp
  then have b: "map_option e2_waiter (exec (Run2Eg_step 0 0 f1 f2) ?evs2 (Run2Eg_init 0 0 None))
      = Some (WReturned (\<lparr>X1 = 0, X2 = 0\<rparr>, Some ?e))"
    using run2 ret2 by simp
  from a b show ?thesis by simp
qed

text \<open>
  Claim C4 holds of \<open>RunSliceEg\<close>, which reads every handle with \<open>Receive\<close>, and fails for
  \<open>Run2Eg\<close>, which reads its two handles with \<open>ReceiveWatch(ctx)\<close>. Here f1 and f4 complete
  with 1 and 4, both members return without error and Wait returns nil; then the token of
  the caller fires. Each \<^verbatim>\<open>select\<close> of \<open>Run2Eg\<close> finds the record and the token ready, draws
  the token, and its error is dropped: \<open>Run2Eg\<close> returns the zero values with the nil error,
  while the records stay in the channels. On the same events \<open>RunSliceEg\<close> returns 1 and 4.
\<close>

theorem Run2Eg_drains_with_ReceiveWatch:
  "map_option e2_waiter (exec (Run2Eg_step 0 0 f1 f4)
      [Member 0 ChanCase, Member 1 ChanCase,
       Task 0, Task 0, Task 0,
       Member 0 ChanCase, Member 0 ChanCase, Member 0 ChanCase, Member 0 ChanCase,
       Task 1, Task 1, Task 1,
       Member 1 ChanCase, Member 1 ChanCase, Member 1 ChanCase, Member 1 ChanCase,
       Waiter ChanCase, Fire Cancel, Waiter DoneCase, Waiter DoneCase, Waiter ChanCase]
      (Run2Eg_init 0 0 None))
    = Some (WReturned (\<lparr>X1 = 0, X2 = 0\<rparr>, None))
   \<and> map_option se_waiter (exec (RunSliceEg_step 0 [f1, f4])
      [Member 0 ChanCase, Member 1 ChanCase,
       Task 0, Task 0, Task 0,
       Member 0 ChanCase, Member 0 ChanCase, Member 0 ChanCase, Member 0 ChanCase,
       Task 1, Task 1, Task 1,
       Member 1 ChanCase, Member 1 ChanCase, Member 1 ChanCase, Member 1 ChanCase,
       Waiter ChanCase, Fire Cancel, Waiter DoneCase, Waiter DoneCase, Waiter ChanCase]
      (RunSliceEg_init None [f1, f4]))
    = Some (WReturned (Some [1, 4], None))"
  by (simp add: model_defs eg_defs)

text \<open>
  Claim C10. With no input function the caller of \<open>RunSlice\<close> is through its loops at
  once and returns the empty slice with the nil error; the caller of \<open>RunSliceEg\<close> finds
  the group without members, so Wait returns nil at once, and it returns the empty slice
  (not the nil slice) with the nil error. Every step of the caller is enabled, in every
  state of the token and for every draw.
\<close>

theorem no_input_functions:
  "map_option rs_waiter (exec (RunSlice_step zero []) [Waiter p] (RunSlice_init zero c []))
     = Some (WReturned ([], None))
   \<and> map_option se_waiter (exec (RunSliceEg_step zero []) [Waiter p, Waiter q] (RunSliceEg_init c []))
     = Some (WReturned (Some [], None))"
  by (simp add: model_defs eg_defs)

theorem no_input_functions_witness:
  "map_option rs_waiter (exec (RunSlice_step (0::int) []) [Waiter ChanCase] (RunSlice_init 0 (Some Deadline) []))
     = Some (WReturned ([], None))
   \<and> map_option se_waiter (exec (RunSliceEg_step (0::int) []) [Waiter ChanCase, Waiter ChanCase]
        (RunSliceEg_init (Some Deadline) []))
     = Some (WReturned (Some [], None))"
  by (rule no_input_functions)

section \<open>Properties of the obsolete promise\<close>

lemmas promise_defs =
  Async_def Await_def Await_rest_def Await_resume_def Wait_def ErrWait_def
  task_finishes_def closer_runs_def

text \<open>
  When the task is through before the token fires, the second \<open>Await\<close> returns what the
  first returned: f3 finishes, the first \<open>Await\<close> blocks until the goroutine it started
  has closed \<open>WaitCh\<close> and returns the pair of f3, and so does the second.
\<close>

lemma Await_twice_completed:
  "\<exists>st1 st2 st3 st4.
      task_finishes 0 f3 (snd (Async 0 None)) = Some st1
    \<and> Await ChanCase (fst (Async 0 None)) st1 = Pending st2
    \<and> closer_runs st2 = Some st3
    \<and> Await_resume ChanCase (fst (Async 0 None)) st3
        = Got (0, Some (ErrorString ''f3 errored-out'')) st4
    \<and> Await ChanCase (fst (Async 0 None)) st4
        = Got (0, Some (ErrorString ''f3 errored-out'')) st4"
  by (simp add: promise_defs model_defs)

text \<open>
  Claim C8 fails on the code. The token of the promise is past its deadline and the task
  is not through. The first \<open>ErrWait\<close> returns \<open>DeadlineExceeded\<close>, and writes it into
  the \<open>Err\<close> of its own copy of the waiter only; the second call finds the \<^verbatim>\<open>Once\<close> done and
  returns the \<open>Err\<close> of a fresh copy, which is nil. So the first \<open>Await\<close> returns the zero
  value with \<open>DeadlineExceeded\<close>, and the second returns it with the nil error.
\<close>

theorem Await_second_call_differs:
  "ErrWait ChanCase (P (fst (Async (0::int) (Some Deadline)))) (snd (Async 0 (Some Deadline)))
     = Got (Some DeadlineExceeded) ((snd (Async 0 (Some Deadline)))\<lparr>st_WaitChGate := True\<rparr>)
   \<and> ErrWait ChanCase (P (fst (Async (0::int) (Some Deadline))))
       ((snd (Async 0 (Some Deadline)))\<lparr>st_WaitChGate := True\<rparr>)
     = Got None ((snd (Async 0 (Some Deadline)))\<lparr>st_WaitChGate := True\<rparr>)
   \<and> (\<exists>st1 st2.
        Await ChanCase (fst (Async (0::int) (Some Deadline))) (snd (Async 0 (Some Deadline)))
          = Got (0, Some DeadlineExceeded) st1
      \<and> Await ChanCase (fst (Async (0::int) (Some Deadline))) st1 = Got (0, None) st2)"
  by (simp add: promise_defs model_defs)

end
